theory Spec2Isabelle
  imports Complex_Main
begin

section \<open>Strings of the script\<close>

text \<open>
  A Python \<open>str\<close> is a sequence of Unicode code points, and \<open>len\<close>, iteration,
  \<open>isalnum\<close>, \<open>strip\<close> and \<open>lower\<close> all work on code points. A code point is a
  natural number here and a string a list of them; \<open>py\<close> turns an ASCII literal of
  the source into such a list.
\<close>

type_synonym codepoint = nat
type_synonym str = "codepoint list"

definition py :: "string \<Rightarrow> str" where
  "py s = map of_char s"

text \<open>
  On ASCII the classification of characters is fixed and written out. Beyond ASCII
  Python asks its Unicode character database, which is not part of the repository:
  it is a parameter of the model. \<open>ucd_lower\<close> is \<open>str.lower\<close> on a string with a
  non-ASCII character (a function of the whole string: the lowercase of a capital
  sigma depends on its position in the word).
\<close>

record ucd =
  ucd_alnum :: "codepoint \<Rightarrow> bool"
  ucd_space :: "codepoint \<Rightarrow> bool"
  ucd_lower :: "str \<Rightarrow> str"

definition is_ascii :: "codepoint \<Rightarrow> bool" where
  "is_ascii c = (c < 128)"

definition ascii_digit :: "codepoint \<Rightarrow> bool" where
  "ascii_digit c = (48 \<le> c \<and> c \<le> 57)"

definition ascii_upper :: "codepoint \<Rightarrow> bool" where
  "ascii_upper c = (65 \<le> c \<and> c \<le> 90)"

definition ascii_lower :: "codepoint \<Rightarrow> bool" where
  "ascii_lower c = (97 \<le> c \<and> c \<le> 122)"

definition isalnum :: "ucd \<Rightarrow> codepoint \<Rightarrow> bool" where
  "isalnum db c =
     (if is_ascii c then ascii_digit c \<or> ascii_upper c \<or> ascii_lower c
      else ucd_alnum db c)"

text \<open>
  ASCII whitespace as \<open>str.isspace\<close> and \<open>str.strip\<close> see it: tab, line feed,
  vertical tab, form feed, carriage return, the four separators 28 to 31, and space.
\<close>

definition isspace :: "ucd \<Rightarrow> codepoint \<Rightarrow> bool" where
  "isspace db c =
     (if is_ascii c then (9 \<le> c \<and> c \<le> 13) \<or> (28 \<le> c \<and> c \<le> 32)
      else ucd_space db c)"

definition lower_char :: "codepoint \<Rightarrow> codepoint" where
  "lower_char c = (if ascii_upper c then c + 32 else c)"

definition lower :: "ucd \<Rightarrow> str \<Rightarrow> str" where
  "lower db s = (if list_all is_ascii s then map lower_char s else ucd_lower db s)"

text \<open>\<open>s.strip()\<close>: leading and trailing whitespace removed.\<close>

definition lstrip :: "ucd \<Rightarrow> str \<Rightarrow> str" where
  "lstrip db s = dropWhile (isspace db) s"

definition rstrip :: "ucd \<Rightarrow> str \<Rightarrow> str" where
  "rstrip db s = rev (dropWhile (isspace db) (rev s))"

definition strip :: "ucd \<Rightarrow> str \<Rightarrow> str" where
  "strip db s = rstrip db (lstrip db s)"

text \<open>
  \<open>s.split(sep)\<close> for a one-character separator: the pieces between the
  separators, empty pieces kept, so the empty string gives one empty piece.
  \<open>cur\<close> holds the characters of the piece being read, last first.
\<close>

fun split_acc :: "codepoint \<Rightarrow> str \<Rightarrow> str \<Rightarrow> str list" where
  "split_acc sep cur [] = [rev cur]"
| "split_acc sep cur (c # cs) =
     (if c = sep then rev cur # split_acc sep [] cs else split_acc sep (c # cur) cs)"

definition split :: "str \<Rightarrow> codepoint \<Rightarrow> str list" where
  "split s sep = split_acc sep [] s"

text \<open>\<open>sep.join(parts)\<close>.\<close>

fun join :: "str \<Rightarrow> str list \<Rightarrow> str" where
  "join sep [] = []"
| "join sep [p] = p"
| "join sep (p # q # ps) = p @ sep @ join sep (q # ps)"

text \<open>\<open>str(n)\<close> for a natural number, and zero padding to a width.\<close>

fun str_of_nat :: "nat \<Rightarrow> str" where
  "str_of_nat n = (if n < 10 then [48 + n] else str_of_nat (n div 10) @ [48 + n mod 10])"

definition zfill :: "nat \<Rightarrow> str \<Rightarrow> str" where
  "zfill w s = replicate (w - length s) 48 @ s"

text \<open>Reading a string of decimal digits back as a number.\<close>

definition nat_of_digits :: "str \<Rightarrow> nat" where
  "nat_of_digits s = foldl (\<lambda>a c. 10 * a + (c - 48)) 0 s"

section \<open>Command line and clock\<close>

text \<open>
  The namespace \<open>parse_args\<close> returns: every option is a string but
  \<open>--num-traces\<close>, which argparse converts with \<open>int\<close>.
\<close>

record namespace =
  experiment_id :: str
  num_traces :: int
  reviewer_emails :: str
  session_name_prefix :: str
  uc_catalog :: str
  uc_schema :: str
  slack_secret_scope :: str
  notify_users :: str

text \<open>
  What \<open>datetime.now()\<close> returns, to the second, and
  \<open>strftime("%Y%m%d_%H%M%S")\<close> on it. The month, day, hour, minute and second
  are written in decimal, zero padded to two digits. The year is written in decimal
  as it is: CPython hands \<open>%Y\<close> to the C library, which on Linux does not pad
  it, so the year 999 gives three digits. From the year 1000 on the year has its four
  digits either way.
\<close>

record datetime =
  year :: nat
  month :: nat
  day :: nat
  hour :: nat
  minute :: nat
  second :: nat

definition valid_datetime :: "datetime \<Rightarrow> bool" where
  "valid_datetime d =
     (1 \<le> year d \<and> year d \<le> 9999 \<and> 1 \<le> month d \<and> month d \<le> 12 \<and>
      1 \<le> day d \<and> day d \<le> 31 \<and> hour d \<le> 23 \<and> minute d \<le> 59 \<and> second d \<le> 59)"

definition strftime :: "datetime \<Rightarrow> str" where
  "strftime d =
     str_of_nat (year d) @ zfill 2 (str_of_nat (month d)) @
     zfill 2 (str_of_nat (day d)) @ py ''_'' @
     zfill 2 (str_of_nat (hour d)) @ zfill 2 (str_of_nat (minute d)) @
     zfill 2 (str_of_nat (second d))"

section \<open>Names derived in main\<close>

text \<open>
  Line 196: \<open>[e.strip() for e in args.reviewer_emails.split(",") if e.strip()]\<close>.
  An empty string is false in Python.
\<close>

definition parse_reviewer_emails :: "ucd \<Rightarrow> str \<Rightarrow> str list" where
  "parse_reviewer_emails db s =
     map (strip db) (filter (\<lambda>e. strip db e \<noteq> []) (split s 44))"

text \<open>
  Line 200: \<open>"".join(c if c.isalnum() or c == "_" else "_" for c in prefix)\<close>.
  Each character gives a one-character string; the pieces are joined.
\<close>

definition safe_prefix :: "ucd \<Rightarrow> str \<Rightarrow> str" where
  "safe_prefix db prefix =
     concat (map (\<lambda>c. if isalnum db c \<or> c = 95 then [c] else py ''_'') prefix)"

text \<open>Lines 199 to 202.\<close>

definition session_name :: "ucd \<Rightarrow> namespace \<Rightarrow> datetime \<Rightarrow> str" where
  "session_name db args now =
     safe_prefix db (session_name_prefix args) @ py ''_'' @ strftime now"

definition uc_table_name :: "ucd \<Rightarrow> namespace \<Rightarrow> datetime \<Rightarrow> str" where
  "uc_table_name db args now =
     uc_catalog args @ py ''.'' @ uc_schema args @ py ''.'' @ session_name db args now"

section \<open>Trace tables\<close>

text \<open>
  The pandas DataFrame \<open>mlflow.search_traces\<close> returns: its column labels and
  its rows. The cells are opaque to the script and stand as text. \<open>df.empty\<close> is
  true when either axis has length zero; \<open>len(df)\<close> is the number of rows.
\<close>

record dataframe =
  columns :: "str list"
  rows :: "str list list"

definition df_empty :: "dataframe \<Rightarrow> bool" where
  "df_empty df = (rows df = [] \<or> columns df = [])"

definition len :: "dataframe \<Rightarrow> nat" where
  "len df = length (rows df)"

text \<open>
  \<open>df.rename(columns={old: new})\<close>: a new table in which every column labelled
  \<open>old\<close> is labelled \<open>new\<close>; the rows are untouched.
\<close>

definition rename :: "dataframe \<Rightarrow> str \<Rightarrow> str \<Rightarrow> dataframe" where
  "rename df old new = df\<lparr>columns := map (\<lambda>c. if c = old then new else c) (columns df)\<rparr>"

text \<open>Lines 159 to 162 of \<open>_fetch_traces\<close>: the two conditional renames, in order.\<close>

definition rename_request :: "dataframe \<Rightarrow> dataframe" where
  "rename_request df =
     (if py ''request'' \<in> set (columns df) \<and> py ''inputs'' \<notin> set (columns df)
      then rename df (py ''request'') (py ''inputs'') else df)"

definition rename_response :: "dataframe \<Rightarrow> dataframe" where
  "rename_response df =
     (if py ''response'' \<in> set (columns df) \<and> py ''outputs'' \<notin> set (columns df)
      then rename df (py ''response'') (py ''outputs'') else df)"

definition rename_trace_columns :: "dataframe \<Rightarrow> dataframe" where
  "rename_trace_columns df = rename_response (rename_request df)"

section \<open>Exceptions, calls and the log of a run\<close>

text \<open>
  What a Python call can raise. \<open>except Exception\<close> catches the first kind only;
  \<open>sys.exit(n)\<close> raises \<open>SystemExit n\<close>; the last kind stands for the other
  exceptions outside \<open>Exception\<close> (a keyboard interrupt).
\<close>

datatype exn = Exception string | SystemExit int | BaseException string

fun is_Exception :: "exn \<Rightarrow> bool" where
  "is_Exception (Exception m) = True"
| "is_Exception (SystemExit n) = False"
| "is_Exception (BaseException m) = False"

text \<open>The objects the platform hands back.\<close>

type_synonym dataset = nat

record labeling_session =
  session_handle :: nat
  url :: str

type_synonym slack_response = "(str \<times> (str \<times> str) list) list"

datatype schema_input = InputNumeric real real

record label_schema =
  schema_name :: str
  schema_type :: str
  schema_title :: str
  schema_input :: schema_input
  schema_instruction :: str
  schema_enable_comment :: bool
  schema_overwrite :: bool

text \<open>
  Every call the script makes outside its own process, with its arguments: the lazy
  imports inside its functions, MLflow, Spark, the secret store and Slack.
\<close>

datatype call =
    Import string
  | SetTrackingUri str
  | SetExperiment str
  | SparkGetOrCreate
  | SparkSql str
  | SearchTraces "str list" int "str list" str
  | GetDataset str
  | CreateDataset str
  | MergeRecords dataset dataframe
  | CreateLabelSchema label_schema
  | CreateLabelingSession str "str list" "str list"
  | AddDataset labeling_session str
  | SecretsGet str str
  | UsersLookupByEmail str str
  | ChatPostMessage str str str

datatype val =
    VNone
  | VFrame dataframe
  | VDataset dataset
  | VSession labeling_session
  | VStr str
  | VResponse slack_response

datatype outcome = Raised exn | Returned val

type_synonym event = "call \<times> outcome"

text \<open>
  The platform is opaque: a state \<open>'w\<close> and, for each operation, a function that
  answers (a value or an exception) and moves the state.
\<close>

record 'w services =
  svc_import_module :: "string \<Rightarrow> 'w \<Rightarrow> (exn + unit) \<times> 'w"
  svc_set_tracking_uri :: "str \<Rightarrow> 'w \<Rightarrow> (exn + unit) \<times> 'w"
  svc_set_experiment :: "str \<Rightarrow> 'w \<Rightarrow> (exn + unit) \<times> 'w"
  svc_spark_get_or_create :: "'w \<Rightarrow> (exn + unit) \<times> 'w"
  svc_spark_sql :: "str \<Rightarrow> 'w \<Rightarrow> (exn + unit) \<times> 'w"
  svc_search_traces :: "str list \<Rightarrow> int \<Rightarrow> str list \<Rightarrow> str \<Rightarrow> 'w \<Rightarrow> (exn + dataframe) \<times> 'w"
  svc_get_dataset :: "str \<Rightarrow> 'w \<Rightarrow> (exn + dataset) \<times> 'w"
  svc_create_dataset :: "str \<Rightarrow> 'w \<Rightarrow> (exn + dataset) \<times> 'w"
  svc_merge_records :: "dataset \<Rightarrow> dataframe \<Rightarrow> 'w \<Rightarrow> (exn + unit) \<times> 'w"
  svc_create_label_schema :: "label_schema \<Rightarrow> 'w \<Rightarrow> (exn + unit) \<times> 'w"
  svc_create_labeling_session ::
    "str \<Rightarrow> str list \<Rightarrow> str list \<Rightarrow> 'w \<Rightarrow> (exn + labeling_session) \<times> 'w"
  svc_add_dataset :: "labeling_session \<Rightarrow> str \<Rightarrow> 'w \<Rightarrow> (exn + labeling_session) \<times> 'w"
  svc_secrets_get :: "str \<Rightarrow> str \<Rightarrow> 'w \<Rightarrow> (exn + str) \<times> 'w"
  svc_users_lookupByEmail :: "str \<Rightarrow> str \<Rightarrow> 'w \<Rightarrow> (exn + slack_response) \<times> 'w"
  svc_chat_postMessage :: "str \<Rightarrow> str \<Rightarrow> str \<Rightarrow> 'w \<Rightarrow> (exn + unit) \<times> 'w"

text \<open>
  A piece of the script runs on the platform's state and the log of the calls made so
  far; it returns a value or raises, and leaves both behind.
\<close>

type_synonym ('w, 'a) prog = "'w \<times> event list \<Rightarrow> (exn + 'a) \<times> ('w \<times> event list)"

definition pret :: "'a \<Rightarrow> ('w, 'a) prog" where
  "pret x = (\<lambda>s. (Inr x, s))"

definition praise :: "exn \<Rightarrow> ('w, 'a) prog" where
  "praise e = (\<lambda>s. (Inl e, s))"

definition pbind :: "('w, 'a) prog \<Rightarrow> ('a \<Rightarrow> ('w, 'b) prog) \<Rightarrow> ('w, 'b) prog" where
  "pbind m f = (\<lambda>s. case m s of (Inl e, s') \<Rightarrow> (Inl e, s') | (Inr x, s') \<Rightarrow> f x s')"

text \<open>\<open>try: m  except Exception: h\<close>.\<close>

definition try_except_Exception :: "('w, 'a) prog \<Rightarrow> ('w, 'a) prog \<Rightarrow> ('w, 'a) prog" where
  "try_except_Exception m h =
     (\<lambda>s. case m s of
        (Inl e, s') \<Rightarrow> if is_Exception e then h s' else (Inl e, s')
      | (Inr x, s') \<Rightarrow> (Inr x, s'))"

definition outcome_of :: "('a \<Rightarrow> val) \<Rightarrow> exn + 'a \<Rightarrow> outcome" where
  "outcome_of wrap r = (case r of Inl e \<Rightarrow> Raised e | Inr x \<Rightarrow> Returned (wrap x))"

text \<open>One call: the platform answers, and the call and its answer go to the log.\<close>

definition invoke :: "call \<Rightarrow> ('a \<Rightarrow> val) \<Rightarrow> ('w \<Rightarrow> (exn + 'a) \<times> 'w) \<Rightarrow> ('w, 'a) prog" where
  "invoke c wrap f =
     (\<lambda>(w, evs). case f w of (r, w') \<Rightarrow> (r, (w', evs @ [(c, outcome_of wrap r)])))"

definition import_module :: "'w services \<Rightarrow> string \<Rightarrow> ('w, unit) prog" where
  "import_module svc m = invoke (Import m) (\<lambda>_. VNone) (svc_import_module svc m)"

definition mlflow_set_tracking_uri :: "'w services \<Rightarrow> str \<Rightarrow> ('w, unit) prog" where
  "mlflow_set_tracking_uri svc uri =
     invoke (SetTrackingUri uri) (\<lambda>_. VNone) (svc_set_tracking_uri svc uri)"

definition mlflow_set_experiment :: "'w services \<Rightarrow> str \<Rightarrow> ('w, unit) prog" where
  "mlflow_set_experiment svc eid =
     invoke (SetExperiment eid) (\<lambda>_. VNone) (svc_set_experiment svc eid)"

definition SparkSession_builder_getOrCreate :: "'w services \<Rightarrow> ('w, unit) prog" where
  "SparkSession_builder_getOrCreate svc =
     invoke SparkGetOrCreate (\<lambda>_. VNone) (svc_spark_get_or_create svc)"

definition spark_sql :: "'w services \<Rightarrow> str \<Rightarrow> ('w, unit) prog" where
  "spark_sql svc stmt = invoke (SparkSql stmt) (\<lambda>_. VNone) (svc_spark_sql svc stmt)"

definition mlflow_search_traces ::
  "'w services \<Rightarrow> str list \<Rightarrow> int \<Rightarrow> str list \<Rightarrow> str \<Rightarrow> ('w, dataframe) prog" where
  "mlflow_search_traces svc ids n ord rt =
     invoke (SearchTraces ids n ord rt) VFrame (svc_search_traces svc ids n ord rt)"

definition get_dataset :: "'w services \<Rightarrow> str \<Rightarrow> ('w, dataset) prog" where
  "get_dataset svc nm = invoke (GetDataset nm) VDataset (svc_get_dataset svc nm)"

definition create_dataset :: "'w services \<Rightarrow> str \<Rightarrow> ('w, dataset) prog" where
  "create_dataset svc nm = invoke (CreateDataset nm) VDataset (svc_create_dataset svc nm)"

definition dataset_merge_records :: "'w services \<Rightarrow> dataset \<Rightarrow> dataframe \<Rightarrow> ('w, unit) prog" where
  "dataset_merge_records svc d df =
     invoke (MergeRecords d df) (\<lambda>_. VNone) (svc_merge_records svc d df)"

definition label_schemas_create_label_schema :: "'w services \<Rightarrow> label_schema \<Rightarrow> ('w, unit) prog" where
  "label_schemas_create_label_schema svc ls =
     invoke (CreateLabelSchema ls) (\<lambda>_. VNone) (svc_create_label_schema svc ls)"

definition create_labeling_session ::
  "'w services \<Rightarrow> str \<Rightarrow> str list \<Rightarrow> str list \<Rightarrow> ('w, labeling_session) prog" where
  "create_labeling_session svc nm users schemas =
     invoke (CreateLabelingSession nm users schemas) VSession
       (svc_create_labeling_session svc nm users schemas)"

definition labeling_session_add_dataset ::
  "'w services \<Rightarrow> labeling_session \<Rightarrow> str \<Rightarrow> ('w, labeling_session) prog" where
  "labeling_session_add_dataset svc s nm =
     invoke (AddDataset s nm) VSession (svc_add_dataset svc s nm)"

definition dbutils_secrets_get :: "'w services \<Rightarrow> str \<Rightarrow> str \<Rightarrow> ('w, str) prog" where
  "dbutils_secrets_get svc scope key =
     invoke (SecretsGet scope key) VStr (svc_secrets_get svc scope key)"

definition client_users_lookupByEmail ::
  "'w services \<Rightarrow> str \<Rightarrow> str \<Rightarrow> ('w, slack_response) prog" where
  "client_users_lookupByEmail svc token email =
     invoke (UsersLookupByEmail token email) VResponse (svc_users_lookupByEmail svc token email)"

definition client_chat_postMessage :: "'w services \<Rightarrow> str \<Rightarrow> str \<Rightarrow> str \<Rightarrow> ('w, unit) prog" where
  "client_chat_postMessage svc token channel txt =
     invoke (ChatPostMessage token channel txt) (\<lambda>_. VNone)
       (svc_chat_postMessage svc token channel txt)"

text \<open>
  \<open>d[key]\<close> on a mapping: the value, or an exception when the key is missing
  (named \<open>KeyError\<close> here, whichever of the two subscripts of line 130 fails).
\<close>

definition getitem :: "('k \<times> 'v) list \<Rightarrow> 'k \<Rightarrow> ('w, 'v) prog" where
  "getitem d k = (case map_of d k of None \<Rightarrow> praise (Exception ''KeyError'') | Some v \<Rightarrow> pret v)"

section \<open>The script\<close>

text \<open>
  Console output is left out: the \<open>print\<close> calls take no part in any call to the
  platform. Each function below is the source function of the same name (without its
  leading underscore).
\<close>

definition LABEL_SCHEMA_NAME :: str where
  "LABEL_SCHEMA_NAME = py ''conversation_quality''"

text \<open>The instruction text; 8211 is the en dash and 10 the line feed.\<close>

definition LABEL_SCHEMA_INSTRUCTION :: str where
  "LABEL_SCHEMA_INSTRUCTION =
     py ''Review the conversation and rate the quality of the agent'' @ [39] @
     py ''s response on a 1'' @ [8211] @ py ''5 scale:'' @ [10] @
     py ''  1 '' @ [8211] @ py '' Very poor: response is incorrect, off-topic, or harmful'' @ [10] @
     py ''  2 '' @ [8211] @
     py '' Poor: response partially addresses the question but has major gaps'' @ [10] @
     py ''  3 '' @ [8211] @
     py '' Acceptable: response is generally correct but could be clearer'' @ [10] @
     py ''  4 '' @ [8211] @
     py '' Good: response is helpful, accurate, and easy to understand'' @ [10] @
     py ''  5 '' @ [8211] @
     py '' Excellent: response fully and clearly addresses the user'' @ [39] @
     py ''s need'' @ [10, 10] @
     py ''Please add a comment explaining your rating, especially for scores of 1 or 2.''"

text \<open>
  Lines 98 to 106. The statement is the f-string of line 106; 96 is the backquote.
\<close>

definition create_schema_statement :: "str \<Rightarrow> str \<Rightarrow> str" where
  "create_schema_statement catalog schema =
     py ''CREATE SCHEMA IF NOT EXISTS '' @ [96] @ catalog @ [96] @ py ''.'' @
       [96] @ schema @ [96]"

definition init_spark :: "'w services \<Rightarrow> str \<Rightarrow> str \<Rightarrow> ('w, unit) prog" where
  "init_spark svc catalog schema =
     pbind (import_module svc ''pyspark.sql'') (\<lambda>_.
     pbind (SparkSession_builder_getOrCreate svc) (\<lambda>_.
     spark_sql svc (create_schema_statement catalog schema)))"

text \<open>Lines 109 to 112.\<close>

definition get_secret :: "'w services \<Rightarrow> str \<Rightarrow> str \<Rightarrow> ('w, str) prog" where
  "get_secret svc scope key =
     pbind (import_module svc ''databricks.sdk.runtime'') (\<lambda>_.
     dbutils_secrets_get svc scope key)"

text \<open>
  Lines 115 to 141. Building the \<open>WebClient\<close> from the token makes no call; the
  client is its token. 8226 is the bullet.
\<close>

definition slack_text :: "str \<Rightarrow> nat \<Rightarrow> str \<Rightarrow> str \<Rightarrow> str" where
  "slack_text sname n reviewers_str session_url =
     py ''*New agent review session created* :clipboard:'' @ [10] @
     [8226] @ py '' *Session:* '' @ [96] @ sname @ [96] @ [10] @
     [8226] @ py '' *Traces:* '' @ str_of_nat n @ py '' conversations to review'' @ [10] @
     [8226] @ py '' *Reviewers:* '' @ reviewers_str @ [10] @
     [8226] @ py '' *Link:* '' @ session_url"

definition send_slack_notification ::
  "'w services \<Rightarrow> str \<Rightarrow> str \<Rightarrow> str \<Rightarrow> str list \<Rightarrow> nat \<Rightarrow> ('w, unit) prog" where
  "send_slack_notification svc secret_scope sname session_url emails n =
     pbind (import_module svc ''slack_sdk'') (\<lambda>_.
     pbind (get_secret svc secret_scope (py ''slack-bot-token'')) (\<lambda>token.
     pbind (client_users_lookupByEmail svc token (py ''brennan.beal@databricks.com''))
       (\<lambda>user.
     pbind (getitem user (py ''user'')) (\<lambda>u.
     pbind (getitem u (py ''id'')) (\<lambda>channel.
     client_chat_postMessage svc token channel
       (slack_text sname n
          (if emails \<noteq> [] then join (py '', '') emails else py ''(none)'')
          session_url))))))"

text \<open>Lines 144 to 164. \<open>sys.exit(1)\<close> raises \<open>SystemExit\<close>.\<close>

definition fetch_traces :: "'w services \<Rightarrow> str \<Rightarrow> int \<Rightarrow> ('w, dataframe) prog" where
  "fetch_traces svc eid n =
     pbind (mlflow_search_traces svc [eid] n [py ''attributes.timestamp_ms DESC'']
              (py ''pandas'')) (\<lambda>traces_df.
     if df_empty traces_df then praise (SystemExit 1)
     else pret (rename_trace_columns traces_df))"

text \<open>Lines 167 to 175.\<close>

definition get_or_create_dataset :: "'w services \<Rightarrow> str \<Rightarrow> ('w, dataset) prog" where
  "get_or_create_dataset svc nm =
     try_except_Exception (get_dataset svc nm) (create_dataset svc nm)"

text \<open>Lines 178 to 188: the arguments of the one registration call, and the call.\<close>

definition conversation_quality_schema :: label_schema where
  "conversation_quality_schema =
     \<lparr>schema_name = LABEL_SCHEMA_NAME,
      schema_type = py ''feedback'',
      schema_title = py ''Conversation Quality (1'' @ [8211] @ py ''5)'',
      schema_input = InputNumeric 1 5,
      schema_instruction = LABEL_SCHEMA_INSTRUCTION,
      schema_enable_comment = True,
      schema_overwrite = True\<rparr>"

definition ensure_label_schema :: "'w services \<Rightarrow> ('w, unit) prog" where
  "ensure_label_schema svc =
     label_schemas_create_label_schema svc conversation_quality_schema"

text \<open>
  Lines 191 to 270. The parsed arguments and the clock reading are inputs. A non-empty
  string is true in Python.
\<close>

definition main :: "'w services \<Rightarrow> ucd \<Rightarrow> namespace \<Rightarrow> datetime \<Rightarrow> ('w, unit) prog" where
  "main svc db args now =
     pbind (mlflow_set_tracking_uri svc (py ''databricks'')) (\<lambda>_.
     pbind (mlflow_set_experiment svc (experiment_id args)) (\<lambda>_.
     pbind (init_spark svc (uc_catalog args) (uc_schema args)) (\<lambda>_.
     pbind (fetch_traces svc (experiment_id args) (num_traces args)) (\<lambda>traces_df.
     pbind (get_or_create_dataset svc (uc_table_name db args now)) (\<lambda>dataset.
     pbind (dataset_merge_records svc dataset traces_df) (\<lambda>_.
     pbind (ensure_label_schema svc) (\<lambda>_.
     pbind (create_labeling_session svc (session_name db args now)
              (parse_reviewer_emails db (reviewer_emails args)) [LABEL_SCHEMA_NAME])
       (\<lambda>created.
     pbind (labeling_session_add_dataset svc created (uc_table_name db args now))
       (\<lambda>labeling_session.
     if lower db (notify_users args) = py ''true'' \<and> slack_secret_scope args \<noteq> []
     then send_slack_notification svc (slack_secret_scope args)
            (session_name db args now) (url labeling_session)
            (parse_reviewer_emails db (reviewer_emails args)) (len traces_df)
     else pret ())))))))))"

text \<open>
  The script run as a process: \<open>main\<close> from an empty log. It ends with status 0 when
  \<open>main\<close> returns and with the code of a \<open>SystemExit\<close>; any other exception ends
  it with a traceback.
\<close>

datatype process_end = ExitStatus int | Traceback exn

definition run :: "'w services \<Rightarrow> ucd \<Rightarrow> namespace \<Rightarrow> datetime \<Rightarrow> 'w \<Rightarrow> (exn + unit) \<times> ('w \<times> event list)" where
  "run svc db args now w = main svc db args now (w, [])"

definition exit_of :: "exn + unit \<Rightarrow> process_end" where
  "exit_of r =
     (case r of
        Inr _ \<Rightarrow> ExitStatus 0
      | Inl (SystemExit n) \<Rightarrow> ExitStatus n
      | Inl e \<Rightarrow> Traceback e)"

definition calls_of :: "(exn + unit) \<times> ('w \<times> event list) \<Rightarrow> event list" where
  "calls_of r = snd (snd r)"

section \<open>Reading the log\<close>

text \<open>Kinds of calls, and whether a logged call returned.\<close>

fun returned :: "event \<Rightarrow> bool" where
  "returned (c, Returned v) = True"
| "returned (c, Raised e) = False"

fun dataset_call :: "call \<Rightarrow> bool" where
  "dataset_call (GetDataset nm) = True"
| "dataset_call (CreateDataset nm) = True"
| "dataset_call (MergeRecords d df) = True"
| "dataset_call _ = False"

fun is_create_dataset :: "call \<Rightarrow> bool" where
  "is_create_dataset (CreateDataset nm) = True"
| "is_create_dataset _ = False"

fun is_merge :: "call \<Rightarrow> bool" where
  "is_merge (MergeRecords d df) = True"
| "is_merge _ = False"

fun registers_schema :: "call \<Rightarrow> bool" where
  "registers_schema (CreateLabelSchema ls) = True"
| "registers_schema _ = False"

fun creates_session :: "call \<Rightarrow> bool" where
  "creates_session (CreateLabelingSession nm users schemas) = True"
| "creates_session _ = False"

fun attaches_dataset :: "call \<Rightarrow> bool" where
  "attaches_dataset (AddDataset s nm) = True"
| "attaches_dataset _ = False"

text \<open>
  The calls of the notification step: the two imports made only there, the secret
  fetch, the user lookup and the message post.
\<close>

fun notification_call :: "call \<Rightarrow> bool" where
  "notification_call (Import m) = (m = ''slack_sdk'' \<or> m = ''databricks.sdk.runtime'')"
| "notification_call (SecretsGet scope key) = True"
| "notification_call (UsersLookupByEmail token email) = True"
| "notification_call (ChatPostMessage token channel txt) = True"
| "notification_call _ = False"

text \<open>The calls that ask the platform to change something it stores.\<close>

fun mutating :: "call \<Rightarrow> bool" where
  "mutating (SparkSql stmt) = True"
| "mutating (CreateDataset nm) = True"
| "mutating (MergeRecords d df) = True"
| "mutating (CreateLabelSchema ls) = True"
| "mutating (CreateLabelingSession nm users schemas) = True"
| "mutating (AddDataset s nm) = True"
| "mutating (ChatPostMessage token channel txt) = True"
| "mutating _ = False"

text \<open>
  Whether the names in a call are the given session name \<open>sn\<close> and dataset name
  \<open>tn\<close>, for the calls that carry one.
\<close>

fun names_are :: "str \<Rightarrow> str \<Rightarrow> call \<Rightarrow> bool" where
  "names_are sn tn (CreateLabelingSession nm users schemas) = (nm = sn)"
| "names_are sn tn (GetDataset nm) = (nm = tn)"
| "names_are sn tn (CreateDataset nm) = (nm = tn)"
| "names_are sn tn (AddDataset s nm) = (nm = tn)"
| "names_are sn tn _ = True"

text \<open>Whether the reviewers in a call that creates a session are the given list.\<close>

fun users_are :: "str list \<Rightarrow> call \<Rightarrow> bool" where
  "users_are us (CreateLabelingSession nm users schemas) = (users = us)"
| "users_are us _ = True"

text \<open>
  \<open>ensures m evs Q\<close>: whatever the platform's state, running \<open>m\<close> from the log
  \<open>evs\<close> ends with a result and a log that satisfy \<open>Q\<close>.
\<close>

definition ensures ::
  "('w, 'a) prog \<Rightarrow> event list \<Rightarrow> (exn + 'a \<Rightarrow> event list \<Rightarrow> bool) \<Rightarrow> bool" where
  "ensures m evs Q = (\<forall>w. Q (fst (m (w, evs))) (snd (snd (m (w, evs)))))"

section \<open>A platform for test runs\<close>

text \<open>
  A small stand-in for the platform, to run the script on concrete inputs: a trace
  store, datasets by name, the statements Spark ran, the registered label schemas,
  the sessions, and a Slack that is up or down.
\<close>

definition ascii_ucd :: ucd where
  "ascii_ucd = \<lparr>ucd_alnum = (\<lambda>c. False), ucd_space = (\<lambda>c. False), ucd_lower = (\<lambda>s. s)\<rparr>"

record fake_world =
  fw_traces :: dataframe
  fw_datasets :: "(str \<times> str list list) list"
  fw_create_allowed :: bool
  fw_statements :: "str list"
  fw_label_schemas :: "label_schema list"
  fw_sessions :: "str list"
  fw_slack_up :: bool
  fw_posted :: "(str \<times> str) list"

fun index_of :: "'a \<Rightarrow> 'a list \<Rightarrow> nat option" where
  "index_of x [] = None"
| "index_of x (y # ys) = (if x = y then Some 0 else map_option Suc (index_of x ys))"

definition fake_services :: "fake_world services" where
  "fake_services =
     \<lparr>svc_import_module = (\<lambda>m w. (Inr (), w)),
      svc_set_tracking_uri = (\<lambda>uri w. (Inr (), w)),
      svc_set_experiment = (\<lambda>eid w. (Inr (), w)),
      svc_spark_get_or_create = (\<lambda>w. (Inr (), w)),
      svc_spark_sql = (\<lambda>stmt w. (Inr (), w\<lparr>fw_statements := fw_statements w @ [stmt]\<rparr>)),
      svc_search_traces = (\<lambda>ids n ord rt w.
        (Inr ((fw_traces w)\<lparr>rows := take (nat n) (rows (fw_traces w))\<rparr>), w)),
      svc_get_dataset = (\<lambda>nm w.
        case index_of nm (map fst (fw_datasets w)) of
          None \<Rightarrow> (Inl (Exception ''dataset not found''), w)
        | Some d \<Rightarrow> (Inr d, w)),
      svc_create_dataset = (\<lambda>nm w.
        if fw_create_allowed w
        then (Inr (length (fw_datasets w)), w\<lparr>fw_datasets := fw_datasets w @ [(nm, [])]\<rparr>)
        else (Inl (Exception ''permission denied''), w)),
      svc_merge_records = (\<lambda>d df w.
        if d < length (fw_datasets w)
        then (Inr (), w\<lparr>fw_datasets := (fw_datasets w)
                [d := (fst (fw_datasets w ! d), snd (fw_datasets w ! d) @ rows df)]\<rparr>)
        else (Inl (Exception ''no such dataset''), w)),
      svc_create_label_schema = (\<lambda>ls w.
        (Inr (), w\<lparr>fw_label_schemas :=
           ls # filter (\<lambda>x. schema_name x \<noteq> schema_name ls) (fw_label_schemas w)\<rparr>)),
      svc_create_labeling_session = (\<lambda>nm users schemas w.
        (Inr \<lparr>session_handle = length (fw_sessions w), url = py ''https://review/'' @ nm\<rparr>,
         w\<lparr>fw_sessions := fw_sessions w @ [nm]\<rparr>)),
      svc_add_dataset = (\<lambda>s nm w. (Inr s, w)),
      svc_secrets_get = (\<lambda>scope key w. (Inr (py ''xoxb''), w)),
      svc_users_lookupByEmail = (\<lambda>token email w.
        if fw_slack_up w then (Inr [(py ''user'', [(py ''id'', py ''U1'')])], w)
        else (Inl (Exception ''SlackApiError''), w)),
      svc_chat_postMessage = (\<lambda>token channel txt w.
        (Inr (), w\<lparr>fw_posted := fw_posted w @ [(channel, txt)]\<rparr>))\<rparr>"

text \<open>
  The example run of the specification: two traces, two reviewers, no secret scope.
\<close>

definition example_args :: namespace where
  "example_args =
     \<lparr>experiment_id = py ''123'', num_traces = 2,
      reviewer_emails = py ''a@x.com,b@x.com'',
      session_name_prefix = py ''agent_review'',
      uc_catalog = py ''main'', uc_schema = py ''agent_review'',
      slack_secret_scope = [], notify_users = py ''false''\<rparr>"

definition example_now :: datetime where
  "example_now = \<lparr>year = 2026, month = 11, day = 4, hour = 9, minute = 5, second = 0\<rparr>"

definition example_traces :: dataframe where
  "example_traces =
     \<lparr>columns = [py ''trace_id'', py ''request'', py ''response''],
      rows = [[py ''t1'', py ''q1'', py ''a1''], [py ''t2'', py ''q2'', py ''a2'']]\<rparr>"

definition example_world :: fake_world where
  "example_world =
     \<lparr>fw_traces = example_traces, fw_datasets = [], fw_create_allowed = True,
      fw_statements = [], fw_label_schemas = [], fw_sessions = [],
      fw_slack_up = True, fw_posted = []\<rparr>"

text \<open>The same run asked to notify, with a secret scope.\<close>

definition notify_args :: namespace where
  "notify_args = example_args\<lparr>slack_secret_scope := py ''scope'', notify_users := py ''TRUE''\<rparr>"

text \<open>
  Three more platforms: a trace store without rows; one where no dataset may be
  created; one whose Slack refuses the lookup.
\<close>

definition no_traces_world :: fake_world where
  "no_traces_world = example_world\<lparr>fw_traces := example_traces\<lparr>rows := []\<rparr>\<rparr>"

definition locked_world :: fake_world where
  "locked_world = example_world\<lparr>fw_create_allowed := False\<rparr>"

definition slack_down_world :: fake_world where
  "slack_down_world = example_world\<lparr>fw_slack_up := False\<rparr>"

text \<open>The session the stand-in platform hands back in the example run.\<close>

definition example_session :: labeling_session where
  "example_session =
     \<lparr>session_handle = 0,
      url = py ''https://review/'' @ session_name ascii_ucd example_args example_now\<rparr>"

section \<open>Strings\<close>

lemma py_simps: "py [] = []" "py (c # cs) = of_char c # py cs"
  by (simp_all add: py_def)

lemma safe_prefix_map:
  "safe_prefix db p = map (\<lambda>c. if isalnum db c \<or> c = 95 then c else 95) p"
  by (induction p) (simp_all add: safe_prefix_def py_simps)

lemma join_Cons: "join sep (p # ps) = (if ps = [] then p else p @ sep @ join sep ps)"
  by (cases ps) simp_all

lemma split_acc_nonempty: "split_acc sep cur s \<noteq> []"
  by (induction s arbitrary: cur) simp_all

lemma join_split_acc: "join [sep] (split_acc sep cur s) = rev cur @ s"
  by (induction s arbitrary: cur) (simp_all add: join_Cons split_acc_nonempty)

lemma split_acc_no_sep:
  "sep \<notin> set cur \<Longrightarrow> list_all (\<lambda>t. sep \<notin> set t) (split_acc sep cur s)"
  by (induction s arbitrary: cur) simp_all

lemma strip_empty_iff: "strip db t = [] \<longleftrightarrow> list_all (isspace db) t"
proof -
  have "strip db t = [] \<longleftrightarrow> (\<forall>c\<in>set (dropWhile (isspace db) t). isspace db c)"
    by (simp add: strip_def rstrip_def lstrip_def dropWhile_eq_Nil_conv)
  also have "\<dots> \<longleftrightarrow> dropWhile (isspace db) t = []"
  proof
    assume a: "\<forall>c\<in>set (dropWhile (isspace db) t). isspace db c"
    show "dropWhile (isspace db) t = []"
    proof (rule ccontr)
      assume n: "dropWhile (isspace db) t \<noteq> []"
      then have "\<not> isspace db (hd (dropWhile (isspace db) t))" by (rule hd_dropWhile)
      moreover have "hd (dropWhile (isspace db) t) \<in> set (dropWhile (isspace db) t)"
        using n by simp
      ultimately show False using a by blast
    qed
  next
    assume e: "dropWhile (isspace db) t = []"
    show "\<forall>c\<in>set (dropWhile (isspace db) t). isspace db c"
      unfolding e by simp
  qed
  also have "\<dots> \<longleftrightarrow> list_all (isspace db) t"
    by (simp add: dropWhile_eq_Nil_conv list_all_iff)
  finally show ?thesis .
qed

lemma rstrip_decomp: "l = rstrip db l @ rev (takeWhile (isspace db) (rev l))"
proof -
  have "rstrip db l @ rev (takeWhile (isspace db) (rev l)) =
        rev (takeWhile (isspace db) (rev l) @ dropWhile (isspace db) (rev l))"
    by (simp only: rstrip_def rev_append)
  also have "\<dots> = l" by simp
  finally show ?thesis by simp
qed

lemma strip_decomp:
  "t = takeWhile (isspace db) t @ strip db t @
       rev (takeWhile (isspace db) (rev (lstrip db t)))"
proof -
  have "t = takeWhile (isspace db) t @ lstrip db t"
    by (simp add: lstrip_def)
  also have "lstrip db t = strip db t @ rev (takeWhile (isspace db) (rev (lstrip db t)))"
    unfolding strip_def by (rule rstrip_decomp)
  finally show ?thesis .
qed

lemma strip_ends:
  assumes "strip db t \<noteq> []"
  shows "\<not> isspace db (hd (strip db t)) \<and> \<not> isspace db (last (strip db t))"
proof -
  let ?l = "lstrip db t"
  have ne: "dropWhile (isspace db) (rev ?l) \<noteq> []"
    using assms by (simp add: strip_def rstrip_def)
  have l: "last (strip db t) = hd (dropWhile (isspace db) (rev ?l))"
    using ne by (simp add: strip_def rstrip_def last_rev)
  have "\<not> isspace db (hd (dropWhile (isspace db) (rev ?l)))"
    using ne by (rule hd_dropWhile)
  then have A: "\<not> isspace db (last (strip db t))" using l by simp
  have lne: "?l \<noteq> []" using ne by auto
  then have hl: "\<not> isspace db (hd ?l)" unfolding lstrip_def by (rule hd_dropWhile)
  have "?l = strip db t @ rev (takeWhile (isspace db) (rev ?l))"
    unfolding strip_def by (rule rstrip_decomp)
  then have "hd ?l = hd (strip db t @ rev (takeWhile (isspace db) (rev ?l)))" by simp
  also have "\<dots> = hd (strip db t)" using assms by simp
  finally show ?thesis using A hl by simp
qed

lemma takeWhile_all: "list_all P (takeWhile P xs)"
  by (induction xs) simp_all

section \<open>The timestamp\<close>

declare str_of_nat.simps [simp del]

lemma str_of_nat_digits: "list_all ascii_digit (str_of_nat n)"
proof (induction n rule: str_of_nat.induct)
  case (1 n)
  show ?case
  proof (cases "n < 10")
    case True
    then show ?thesis by (simp add: str_of_nat.simps[of n] ascii_digit_def)
  next
    case False
    have "n mod 10 < 10" by simp
    then have "ascii_digit (48 + n mod 10)" unfolding ascii_digit_def by linarith
    with False 1 show ?thesis by (simp add: str_of_nat.simps[of n])
  qed
qed

lemma length_str_of_nat: "n < 10 ^ k \<Longrightarrow> 0 < k \<Longrightarrow> length (str_of_nat n) \<le> k"
proof (induction n arbitrary: k rule: str_of_nat.induct)
  case (1 n)
  show ?case
  proof (cases "n < 10")
    case True
    then show ?thesis using "1.prems" by (simp add: str_of_nat.simps[of n])
  next
    case False
    obtain j where k: "k = Suc j" using "1.prems" by (cases k) auto
    have "j \<noteq> 0" using False "1.prems" k by (cases j) auto
    moreover have "n div 10 < 10 ^ j" using "1.prems" k by (simp add: less_mult_imp_div_less mult.commute)
    ultimately have "length (str_of_nat (n div 10)) \<le> j" using "1.IH"[OF False] by simp
    then show ?thesis using False k by (simp add: str_of_nat.simps[of n])
  qed
qed

lemma nat_of_digits_snoc: "nat_of_digits (s @ [c]) = 10 * nat_of_digits s + (c - 48)"
  by (simp add: nat_of_digits_def)

lemma nat_of_digits_str_of_nat: "nat_of_digits (str_of_nat n) = n"
proof (induction n rule: str_of_nat.induct)
  case (1 n)
  show ?case
  proof (cases "n < 10")
    case True
    then show ?thesis by (simp add: str_of_nat.simps[of n] nat_of_digits_def)
  next
    case False
    with 1 show ?thesis by (simp add: str_of_nat.simps[of n] nat_of_digits_snoc)
  qed
qed

lemma nat_of_digits_zeros: "foldl (\<lambda>a c. 10 * a + (c - 48)) 0 (replicate k 48) = (0::nat)"
  by (induction k) simp_all

lemma nat_of_digits_zfill: "nat_of_digits (zfill w s) = nat_of_digits s"
  by (simp add: nat_of_digits_def zfill_def nat_of_digits_zeros)

lemma zfill_field:
  assumes "n < 10 ^ w" "0 < w"
  shows "length (zfill w (str_of_nat n)) = w"
    and "list_all ascii_digit (zfill w (str_of_nat n))"
    and "nat_of_digits (zfill w (str_of_nat n)) = n"
proof -
  have "length (str_of_nat n) \<le> w" using assms by (rule length_str_of_nat)
  then show "length (zfill w (str_of_nat n)) = w" by (simp add: zfill_def)
  show "list_all ascii_digit (zfill w (str_of_nat n))"
    using str_of_nat_digits[of n] by (auto simp: zfill_def list_all_iff ascii_digit_def)
  show "nat_of_digits (zfill w (str_of_nat n)) = n"
    by (simp add: nat_of_digits_zfill nat_of_digits_str_of_nat)
qed

lemma length_str_of_nat_lower: "10 ^ k \<le> n \<Longrightarrow> k < length (str_of_nat n)"
proof (induction n arbitrary: k rule: str_of_nat.induct)
  case (1 n)
  show ?case
  proof (cases "n < 10")
    case True
    have "k = 0"
    proof (cases k)
      case (Suc j)
      then have "(10::nat) \<le> 10 ^ k" by simp
      then show ?thesis using "1.prems" True by simp
    qed simp
    then show ?thesis using True by (simp add: str_of_nat.simps[of n])
  next
    case False
    show ?thesis
    proof (cases k)
      case 0
      then show ?thesis using False by (simp add: str_of_nat.simps[of n])
    next
      case (Suc j)
      then have "10 ^ j * 10 \<le> n" using "1.prems" by (simp add: mult.commute)
      then have "10 ^ j \<le> n div 10" by (simp add: less_eq_div_iff_mult_less_eq)
      then have "j < length (str_of_nat (n div 10))" using "1.IH"[OF False] by simp
      then show ?thesis using False Suc by (simp add: str_of_nat.simps[of n])
    qed
  qed
qed

lemma year_field:
  assumes "1000 \<le> n" "n \<le> 9999"
  shows "length (str_of_nat n) = 4"
proof -
  have "n < 10 ^ 4" using assms(2) by simp
  then have "length (str_of_nat n) \<le> 4" by (rule length_str_of_nat) simp
  moreover have "(10::nat) ^ 3 \<le> n" using assms(1) by simp
  then have "3 < length (str_of_nat n)" by (rule length_str_of_nat_lower)
  ultimately show ?thesis by simp
qed

lemma strftime_format:
  assumes v: "valid_datetime d" and y: "1000 \<le> year d"
  shows "length (strftime d) = 15"
    and "list_all ascii_digit (take 8 (strftime d))"
    and "strftime d ! 8 = 95"
    and "list_all ascii_digit (drop 9 (strftime d))"
    and "nat_of_digits (take 4 (strftime d)) = year d"
    and "nat_of_digits (take 2 (drop 4 (strftime d))) = month d"
    and "nat_of_digits (take 2 (drop 6 (strftime d))) = day d"
    and "nat_of_digits (take 2 (drop 9 (strftime d))) = hour d"
    and "nat_of_digits (take 2 (drop 11 (strftime d))) = minute d"
    and "nat_of_digits (take 2 (drop 13 (strftime d))) = second d"
proof -
  define Y where "Y = str_of_nat (year d)"
  define Mo where "Mo = zfill 2 (str_of_nat (month d))"
  define D where "D = zfill 2 (str_of_nat (day d))"
  define H where "H = zfill 2 (str_of_nat (hour d))"
  define Mi where "Mi = zfill 2 (str_of_nat (minute d))"
  define S where "S = zfill 2 (str_of_nat (second d))"
  have b: "month d < 10 ^ 2" "day d < 10 ^ 2" "hour d < 10 ^ 2"
    "minute d < 10 ^ 2" "second d < 10 ^ 2"
    using v by (simp_all add: valid_datetime_def)
  have y9: "year d \<le> 9999" using v by (simp add: valid_datetime_def)
  note f = zfill_field
  have len: "length Y = 4" "length Mo = 2" "length D = 2" "length H = 2" "length Mi = 2" "length S = 2"
    unfolding Y_def Mo_def D_def H_def Mi_def S_def using b year_field [OF y y9]
    by (simp_all add: f(1))
  have dig: "list_all ascii_digit Y" "list_all ascii_digit Mo" "list_all ascii_digit D"
    "list_all ascii_digit H" "list_all ascii_digit Mi" "list_all ascii_digit S"
    unfolding Y_def Mo_def D_def H_def Mi_def S_def using b
    by (simp_all add: f(2) str_of_nat_digits)
  have num: "nat_of_digits Y = year d" "nat_of_digits Mo = month d" "nat_of_digits D = day d"
    "nat_of_digits H = hour d" "nat_of_digits Mi = minute d" "nat_of_digits S = second d"
    unfolding Y_def Mo_def D_def H_def Mi_def S_def using b
    by (simp_all add: f(3) nat_of_digits_str_of_nat)
  have s: "strftime d = Y @ Mo @ D @ [95] @ H @ Mi @ S"
    by (simp add: strftime_def Y_def Mo_def D_def H_def Mi_def S_def py_simps)
  show "length (strftime d) = 15" by (simp add: s len)
  show "list_all ascii_digit (take 8 (strftime d))" by (simp add: s len dig)
  show "strftime d ! 8 = 95" by (simp add: s len nth_append)
  show "list_all ascii_digit (drop 9 (strftime d))" by (simp add: s len dig)
  show "nat_of_digits (take 4 (strftime d)) = year d" by (simp add: s len num)
  show "nat_of_digits (take 2 (drop 4 (strftime d))) = month d" by (simp add: s len num)
  show "nat_of_digits (take 2 (drop 6 (strftime d))) = day d" by (simp add: s len num)
  show "nat_of_digits (take 2 (drop 9 (strftime d))) = hour d" by (simp add: s len num)
  show "nat_of_digits (take 2 (drop 11 (strftime d))) = minute d" by (simp add: s len num)
  show "nat_of_digits (take 2 (drop 13 (strftime d))) = second d" by (simp add: s len num)
qed

text \<open>Below the year 1000 the year is shorter, and the timestamp with it.\<close>

lemma strftime_year_999:
  "strftime \<lparr>year = 999, month = 1, day = 2, hour = 3, minute = 4, second = 5\<rparr> =
     py ''9990102_030405''"
proof -
  have d: "str_of_nat 999 = py ''999''" "str_of_nat (Suc 0) = py ''1''" "str_of_nat 2 = py ''2''"
    "str_of_nat 3 = py ''3''" "str_of_nat 4 = py ''4''" "str_of_nat 5 = py ''5''"
    by (simp_all add: str_of_nat.simps py_simps)
  show ?thesis
    by (simp add: strftime_def d zfill_def) (simp add: py_simps)
qed

section \<open>Renaming columns\<close>

lemma rename_rows: "rows (rename df a b) = rows df"
  by (simp add: rename_def)

lemma eq_map_conv: "(xs = map f xs) = (\<forall>x\<in>set xs. f x = x)"
  by (induction xs) auto

lemma columns_rename_trace_columns:
  "columns (rename_trace_columns df) =
     map (\<lambda>c. if c = py ''request'' \<and> py ''inputs'' \<notin> set (columns df) then py ''inputs''
              else if c = py ''response'' \<and> py ''outputs'' \<notin> set (columns df) then py ''outputs''
              else c) (columns df)"
  by (auto simp: rename_trace_columns_def rename_request_def rename_response_def rename_def
      py_simps eq_map_conv)

lemma rows_rename_trace_columns: "rows (rename_trace_columns df) = rows df"
  by (simp add: rename_trace_columns_def rename_request_def rename_response_def rename_def)

lemma dataframe_eqI: "columns a = columns b \<Longrightarrow> rows a = rows b \<Longrightarrow> (a::dataframe) = b"
  by simp

lemma rename_trace_columns_noop:
  "py ''inputs'' \<in> set (columns df) \<Longrightarrow> py ''outputs'' \<in> set (columns df) \<Longrightarrow> rename_trace_columns df = df"
  by (simp add: rename_trace_columns_def rename_request_def rename_response_def)

lemma rename_trace_columns_absent:
  "py ''request'' \<notin> set (columns df) \<Longrightarrow> py ''response'' \<notin> set (columns df) \<Longrightarrow>
   rename_trace_columns df = df"
  by (simp add: rename_trace_columns_def rename_request_def rename_response_def)

lemma rename_trace_columns_idem:
  "rename_trace_columns (rename_trace_columns df) = rename_trace_columns df"
  apply (rule dataframe_eqI)
   apply (simp add: columns_rename_trace_columns[of "rename_trace_columns df"])
   apply (auto simp: columns_rename_trace_columns py_simps)[1]
  apply (simp add: rows_rename_trace_columns)
  done

lemma rename_commute: "rename_response (rename_request df) = rename_request (rename_response df)"
  by (auto simp: rename_request_def rename_response_def rename_def py_simps)

section \<open>What a piece of the script ensures\<close>

lemma ensuresD: "ensures m evs Q \<Longrightarrow> Q (fst (m (w, evs))) (snd (snd (m (w, evs))))"
  by (simp add: ensures_def)

lemma outcome_of_simps:
  "outcome_of wrap (Inl e) = Raised e" "outcome_of wrap (Inr x) = Returned (wrap x)"
  by (simp_all add: outcome_of_def)

lemma ensures_pret: "Q (Inr x) evs \<Longrightarrow> ensures (pret x) evs Q"
  by (simp add: ensures_def pret_def)

lemma ensures_praise: "Q (Inl e) evs \<Longrightarrow> ensures (praise e) evs Q"
  by (simp add: ensures_def praise_def)

lemma ensures_invoke:
  assumes "\<And>e. Q (Inl e) (evs @ [(c, Raised e)])"
    and "\<And>x. Q (Inr x) (evs @ [(c, Returned (wrap x))])"
  shows "ensures (invoke c wrap f) evs Q"
  unfolding ensures_def
proof
  fix w
  obtain r w' where fw: "f w = (r, w')" by (cases "f w") auto
  show "Q (fst (invoke c wrap f (w, evs))) (snd (snd (invoke c wrap f (w, evs))))"
    using assms by (cases r) (simp_all add: invoke_def fw outcome_of_def)
qed

lemma ensures_pbind:
  assumes "ensures m evs (\<lambda>r evs'. case r of Inl e \<Rightarrow> Q (Inl e) evs' | Inr x \<Rightarrow> ensures (f x) evs' Q)"
  shows "ensures (pbind m f) evs Q"
  unfolding ensures_def
proof
  fix w
  obtain r w' evs' where m: "m (w, evs) = (r, w', evs')" by (cases "m (w, evs)") auto
  show "Q (fst (pbind m f (w, evs))) (snd (snd (pbind m f (w, evs))))"
  proof (cases r)
    case (Inl e)
    from ensuresD[OF assms, of w] have "Q (Inl e) evs'" by (simp add: m Inl)
    then show ?thesis using m Inl by (simp add: pbind_def)
  next
    case (Inr x)
    from ensuresD[OF assms, of w] have "ensures (f x) evs' Q" by (simp add: m Inr)
    then show ?thesis using m Inr by (simp add: pbind_def ensures_def)
  qed
qed

lemma ensures_invoke_bind:
  assumes "\<And>e. Q (Inl e) (evs @ [(c, Raised e)])"
    and "\<And>x. ensures (g x) (evs @ [(c, Returned (wrap x))]) Q"
  shows "ensures (pbind (invoke c wrap f) g) evs Q"
  apply (rule ensures_pbind)
  apply (rule ensures_invoke)
   apply (simp add: assms(1))
  apply (simp add: assms(2))
  done

lemma ensures_try:
  assumes "ensures m evs (\<lambda>r evs'. case r of
              Inl e \<Rightarrow> if is_Exception e then ensures h evs' Q else Q (Inl e) evs'
            | Inr x \<Rightarrow> Q (Inr x) evs')"
  shows "ensures (try_except_Exception m h) evs Q"
  unfolding ensures_def
proof
  fix w
  obtain r w' evs' where m: "m (w, evs) = (r, w', evs')" by (cases "m (w, evs)") auto
  show "Q (fst (try_except_Exception m h (w, evs))) (snd (snd (try_except_Exception m h (w, evs))))"
  proof (cases r)
    case (Inl e)
    show ?thesis
    proof (cases "is_Exception e")
      case True
      from ensuresD[OF assms, of w] have "ensures h evs' Q" by (simp add: m Inl True)
      then show ?thesis using m Inl True by (simp add: try_except_Exception_def ensures_def)
    next
      case False
      from ensuresD[OF assms, of w] have "Q (Inl e) evs'" by (simp add: m Inl False)
      then show ?thesis using m Inl False by (simp add: try_except_Exception_def)
    qed
  next
    case (Inr x)
    from ensuresD[OF assms, of w] have "Q (Inr x) evs'" by (simp add: m Inr)
    then show ?thesis using m Inr by (simp add: try_except_Exception_def)
  qed
qed

lemma ensures_try_invoke_bind:
  assumes "\<And>x. ensures (g x) (evs @ [(c, Returned (wrap x))]) Q"
    and "\<And>e. \<not> is_Exception e \<Longrightarrow> Q (Inl e) (evs @ [(c, Raised e)])"
    and "\<And>e e'. is_Exception e \<Longrightarrow> Q (Inl e') (evs @ [(c, Raised e), (c', Raised e')])"
    and "\<And>e x. is_Exception e \<Longrightarrow> ensures (g x) (evs @ [(c, Raised e), (c', Returned (wrap' x))]) Q"
  shows "ensures (pbind (try_except_Exception (invoke c wrap f) (invoke c' wrap' f')) g) evs Q"
  apply (rule ensures_pbind)
  apply (rule ensures_try)
  apply (rule ensures_invoke)
   apply (simp add: assms(2))
   apply (rule impI)
   apply (rule ensures_invoke)
    apply (simp add: assms(3))
   apply (simp add: assms(4))
  apply (simp add: assms(1))
  done

lemma ensures_if:
  "(b \<Longrightarrow> ensures m evs Q) \<Longrightarrow> (\<not> b \<Longrightarrow> ensures n evs Q) \<Longrightarrow> ensures (if b then m else n) evs Q"
  by simp

lemmas call_defs = import_module_def mlflow_set_tracking_uri_def mlflow_set_experiment_def
  SparkSession_builder_getOrCreate_def spark_sql_def mlflow_search_traces_def get_dataset_def
  create_dataset_def dataset_merge_records_def label_schemas_create_label_schema_def
  create_labeling_session_def labeling_session_add_dataset_def dbutils_secrets_get_def
  client_users_lookupByEmail_def client_chat_postMessage_def

lemma ensures_getitem_bind:
  assumes "Q (Inl (Exception ''KeyError'')) evs" and "\<And>v. ensures (g v) evs Q"
  shows "ensures (pbind (getitem d k) g) evs Q"
proof (cases "map_of d k")
  case None
  then have "pbind (getitem d k) g = praise (Exception ''KeyError'')"
    by (simp add: getitem_def pbind_def praise_def)
  then show ?thesis using assms(1) by (simp add: ensures_praise)
next
  case (Some v)
  then have "pbind (getitem d k) g = g v"
    by (simp add: getitem_def pbind_def pret_def)
  then show ?thesis using assms(2) by simp
qed

lemmas script_defs = main_def init_spark_def get_secret_def send_slack_notification_def
  fetch_traces_def get_or_create_dataset_def ensure_label_schema_def

lemma pbind_assoc: "pbind (pbind m f) g = pbind m (\<lambda>x. pbind (f x) g)"
proof
  fix s
  obtain r s' where ms: "m s = (r, s')" by (cases "m s") auto
  show "pbind (pbind m f) g s = pbind m (\<lambda>x. pbind (f x) g) s"
    by (cases r) (simp_all add: pbind_def ms)
qed

lemma pbind_if: "pbind (if b then m else n) g = (if b then pbind m g else pbind n g)"
  by simp

lemma pbind_pret: "pbind (pret x) g = g x"
  by (simp add: pbind_def pret_def)

lemma pbind_praise: "pbind (praise e) g = praise e"
  by (simp add: pbind_def praise_def)

lemmas norm = script_defs call_defs pbind_assoc pbind_if pbind_pret pbind_praise
lemmas ensures_rules = ensures_try_invoke_bind ensures_invoke_bind ensures_invoke ensures_if ensures_pret ensures_praise ensures_getitem_bind

lemma ensures_main:
  assumes "ensures (main svc db args now) [] Q" and "run svc db args now w = (r, w', evs)"
  shows "Q r evs"
  using ensuresD[OF assms(1), of w] assms(2) by (simp add: run_def)

section \<open>Test runs\<close>

lemma ascii_ucd_simps:
  "ucd_alnum ascii_ucd c = False" "ucd_space ascii_ucd c = False" "ucd_lower ascii_ucd s = s"
  by (simp_all add: ascii_ucd_def)

lemmas prog_defs = pbind_def pret_def praise_def try_except_Exception_def invoke_def
  outcome_of_def getitem_def

lemmas eval_defs = run_def script_defs call_defs prog_defs fake_services_def
  example_world_def rows_rename_trace_columns

lemma example_args_simps:
  "experiment_id example_args = py ''123''" "num_traces example_args = 2"
  "reviewer_emails example_args = py ''a@x.com,b@x.com''"
  "uc_catalog example_args = py ''main''" "uc_schema example_args = py ''agent_review''"
  "slack_secret_scope example_args = []" "notify_users example_args = py ''false''"
  by (simp_all add: example_args_def)

lemma notify_args_simps:
  "experiment_id notify_args = py ''123''" "num_traces notify_args = 2"
  "reviewer_emails notify_args = py ''a@x.com,b@x.com''"
  "uc_catalog notify_args = py ''main''" "uc_schema notify_args = py ''agent_review''"
  "slack_secret_scope notify_args = py ''scope''" "notify_users notify_args = py ''TRUE''"
  by (simp_all add: notify_args_def example_args_def)

lemma example_names:
  "session_name db notify_args now = session_name db example_args now"
  "uc_table_name db notify_args now = uc_table_name db example_args now"
  by (simp_all add: session_name_def uc_table_name_def notify_args_def example_args_def)

lemma example_reviewers:
  "parse_reviewer_emails ascii_ucd (py ''a@x.com,b@x.com'') = [py ''a@x.com'', py ''b@x.com'']"
  by (simp add: parse_reviewer_emails_def split_def strip_def lstrip_def rstrip_def isspace_def
      is_ascii_def py_simps)

lemma example_guard:
  "lower ascii_ucd (py ''false'') \<noteq> py ''true''"
  "lower ascii_ucd (py ''TRUE'') = py ''true''"
  "py ''scope'' \<noteq> []"
  by (simp_all add: lower_def lower_char_def ascii_upper_def is_ascii_def py_simps)

lemma example_traces_simps:
  "df_empty example_traces = False"
  "df_empty (example_traces\<lparr>rows := []\<rparr>) = True"
  "example_traces\<lparr>rows := take 2 (rows example_traces)\<rparr> = example_traces"
  "len (rename_trace_columns example_traces) = len example_traces"
  by (simp_all add: df_empty_def example_traces_def len_def rows_rename_trace_columns)

lemmas eval_defs2 = eval_defs example_session_def
  example_args_simps notify_args_simps example_names example_reviewers example_guard
  example_traces_simps

lemma example_run:
  "run fake_services ascii_ucd example_args example_now example_world =
     (Inr (),
      example_world
        \<lparr>fw_datasets := [(uc_table_name ascii_ucd example_args example_now, rows example_traces)],
         fw_statements := [create_schema_statement (py ''main'') (py ''agent_review'')],
         fw_label_schemas := [conversation_quality_schema],
         fw_sessions := [session_name ascii_ucd example_args example_now]\<rparr>,
      [(SetTrackingUri (py ''databricks''), Returned VNone),
       (SetExperiment (py ''123''), Returned VNone),
       (Import ''pyspark.sql'', Returned VNone),
       (SparkGetOrCreate, Returned VNone),
       (SparkSql (create_schema_statement (py ''main'') (py ''agent_review'')), Returned VNone),
       (SearchTraces [py ''123''] 2 [py ''attributes.timestamp_ms DESC''] (py ''pandas''),
        Returned (VFrame example_traces)),
       (GetDataset (uc_table_name ascii_ucd example_args example_now),
        Raised (Exception ''dataset not found'')),
       (CreateDataset (uc_table_name ascii_ucd example_args example_now), Returned (VDataset 0)),
       (MergeRecords 0 (rename_trace_columns example_traces), Returned VNone),
       (CreateLabelSchema conversation_quality_schema, Returned VNone),
       (CreateLabelingSession (session_name ascii_ucd example_args example_now)
          (parse_reviewer_emails ascii_ucd (py ''a@x.com,b@x.com'')) [LABEL_SCHEMA_NAME],
        Returned (VSession example_session)),
       (AddDataset example_session (uc_table_name ascii_ucd example_args example_now),
        Returned (VSession example_session))])"
  by (simp add: eval_defs2)

lemma no_traces_run:
  "run fake_services ascii_ucd example_args example_now no_traces_world =
     (Inl (SystemExit 1),
      no_traces_world\<lparr>fw_statements := [create_schema_statement (py ''main'') (py ''agent_review'')]\<rparr>,
      [(SetTrackingUri (py ''databricks''), Returned VNone),
       (SetExperiment (py ''123''), Returned VNone),
       (Import ''pyspark.sql'', Returned VNone),
       (SparkGetOrCreate, Returned VNone),
       (SparkSql (create_schema_statement (py ''main'') (py ''agent_review'')), Returned VNone),
       (SearchTraces [py ''123''] 2 [py ''attributes.timestamp_ms DESC''] (py ''pandas''),
        Returned (VFrame (example_traces\<lparr>rows := []\<rparr>)))])"
  by (simp add: eval_defs2 no_traces_world_def)

lemma locked_run:
  "run fake_services ascii_ucd example_args example_now locked_world =
     (Inl (Exception ''permission denied''),
      locked_world\<lparr>fw_statements := [create_schema_statement (py ''main'') (py ''agent_review'')]\<rparr>,
      [(SetTrackingUri (py ''databricks''), Returned VNone),
       (SetExperiment (py ''123''), Returned VNone),
       (Import ''pyspark.sql'', Returned VNone),
       (SparkGetOrCreate, Returned VNone),
       (SparkSql (create_schema_statement (py ''main'') (py ''agent_review'')), Returned VNone),
       (SearchTraces [py ''123''] 2 [py ''attributes.timestamp_ms DESC''] (py ''pandas''),
        Returned (VFrame example_traces)),
       (GetDataset (uc_table_name ascii_ucd example_args example_now),
        Raised (Exception ''dataset not found'')),
       (CreateDataset (uc_table_name ascii_ucd example_args example_now),
        Raised (Exception ''permission denied''))])"
  by (simp add: eval_defs2 locked_world_def)

lemma slack_down_run:
  "run fake_services ascii_ucd notify_args example_now slack_down_world =
     (Inl (Exception ''SlackApiError''),
      slack_down_world
        \<lparr>fw_datasets := [(uc_table_name ascii_ucd example_args example_now, rows example_traces)],
         fw_statements := [create_schema_statement (py ''main'') (py ''agent_review'')],
         fw_label_schemas := [conversation_quality_schema],
         fw_sessions := [session_name ascii_ucd example_args example_now]\<rparr>,
      [(SetTrackingUri (py ''databricks''), Returned VNone),
       (SetExperiment (py ''123''), Returned VNone),
       (Import ''pyspark.sql'', Returned VNone),
       (SparkGetOrCreate, Returned VNone),
       (SparkSql (create_schema_statement (py ''main'') (py ''agent_review'')), Returned VNone),
       (SearchTraces [py ''123''] 2 [py ''attributes.timestamp_ms DESC''] (py ''pandas''),
        Returned (VFrame example_traces)),
       (GetDataset (uc_table_name ascii_ucd example_args example_now),
        Raised (Exception ''dataset not found'')),
       (CreateDataset (uc_table_name ascii_ucd example_args example_now), Returned (VDataset 0)),
       (MergeRecords 0 (rename_trace_columns example_traces), Returned VNone),
       (CreateLabelSchema conversation_quality_schema, Returned VNone),
       (CreateLabelingSession (session_name ascii_ucd example_args example_now)
          (parse_reviewer_emails ascii_ucd (py ''a@x.com,b@x.com'')) [LABEL_SCHEMA_NAME],
        Returned (VSession example_session)),
       (AddDataset example_session (uc_table_name ascii_ucd example_args example_now),
        Returned (VSession example_session)),
       (Import ''slack_sdk'', Returned VNone),
       (Import ''databricks.sdk.runtime'', Returned VNone),
       (SecretsGet (py ''scope'') (py ''slack-bot-token''), Returned (VStr (py ''xoxb''))),
       (UsersLookupByEmail (py ''xoxb'') (py ''brennan.beal@databricks.com''),
        Raised (Exception ''SlackApiError''))])"
  by (simp add: eval_defs2 slack_down_world_def)

lemma notify_run:
  "run fake_services ascii_ucd notify_args example_now example_world =
     (Inr (),
      example_world
        \<lparr>fw_datasets := [(uc_table_name ascii_ucd example_args example_now, rows example_traces)],
         fw_statements := [create_schema_statement (py ''main'') (py ''agent_review'')],
         fw_label_schemas := [conversation_quality_schema],
         fw_sessions := [session_name ascii_ucd example_args example_now],
         fw_posted := [(py ''U1'', slack_text (session_name ascii_ucd example_args example_now) (len example_traces)
              (join (py '', '') (parse_reviewer_emails ascii_ucd (py ''a@x.com,b@x.com'')))
              (url example_session))]\<rparr>,
      [(SetTrackingUri (py ''databricks''), Returned VNone),
       (SetExperiment (py ''123''), Returned VNone),
       (Import ''pyspark.sql'', Returned VNone),
       (SparkGetOrCreate, Returned VNone),
       (SparkSql (create_schema_statement (py ''main'') (py ''agent_review'')), Returned VNone),
       (SearchTraces [py ''123''] 2 [py ''attributes.timestamp_ms DESC''] (py ''pandas''),
        Returned (VFrame example_traces)),
       (GetDataset (uc_table_name ascii_ucd example_args example_now),
        Raised (Exception ''dataset not found'')),
       (CreateDataset (uc_table_name ascii_ucd example_args example_now), Returned (VDataset 0)),
       (MergeRecords 0 (rename_trace_columns example_traces), Returned VNone),
       (CreateLabelSchema conversation_quality_schema, Returned VNone),
       (CreateLabelingSession (session_name ascii_ucd example_args example_now)
          (parse_reviewer_emails ascii_ucd (py ''a@x.com,b@x.com'')) [LABEL_SCHEMA_NAME],
        Returned (VSession example_session)),
       (AddDataset example_session (uc_table_name ascii_ucd example_args example_now),
        Returned (VSession example_session)),
       (Import ''slack_sdk'', Returned VNone),
       (Import ''databricks.sdk.runtime'', Returned VNone),
       (SecretsGet (py ''scope'') (py ''slack-bot-token''), Returned (VStr (py ''xoxb''))),
       (UsersLookupByEmail (py ''xoxb'') (py ''brennan.beal@databricks.com''),
        Returned (VResponse [(py ''user'', [(py ''id'', py ''U1'')])])),
       (ChatPostMessage (py ''xoxb'') (py ''U1'')
          (slack_text (session_name ascii_ucd example_args example_now) (len example_traces)
              (join (py '', '') (parse_reviewer_emails ascii_ucd (py ''a@x.com,b@x.com'')))
              (url example_session)),
        Returned VNone)])"
  by (simp add: eval_defs2)

section \<open>The claims\<close>

text \<open>
  C2. For every prefix the sanitizer keeps each character that is alphanumeric or an
  underscore and puts an underscore (code point 95) for every other one: the output
  has the length of the input and holds only alphanumeric characters and underscores.
\<close>

theorem safe_prefix_sanitized:
  "length (safe_prefix db p) = length p \<and>
   list_all (\<lambda>c. isalnum db c \<or> c = 95) (safe_prefix db p) \<and>
   (\<forall>i<length p. safe_prefix db p ! i =
       (if \<not> isalnum db (p ! i) \<and> p ! i \<noteq> 95 then 95 else p ! i))"
  by (auto simp: safe_prefix_map list_all_iff)

theorem safe_prefix_sanitized_witness:
  "length (safe_prefix ascii_ucd (py ''my-review 1!'')) = 12 \<and>
   list_all (\<lambda>c. isalnum ascii_ucd c \<or> c = 95) (safe_prefix ascii_ucd (py ''my-review 1!'')) \<and>
   safe_prefix ascii_ucd (py ''my-review 1!'') ! 2 = 95 \<and>
   safe_prefix ascii_ucd (py ''my-review 1!'') ! 3 = 114 \<and>
   safe_prefix ascii_ucd (py ''my-review 1!'') = py ''my_review_1_''"
proof -
  have p: "py ''my-review 1!'' = [109, 121, 45, 114, 101, 118, 105, 101, 119, 32, 49, 33]"
    by (simp add: py_simps)
  have a: "\<not> isalnum ascii_ucd 45" "isalnum ascii_ucd 114"
    by (simp_all add: isalnum_def is_ascii_def ascii_digit_def ascii_upper_def ascii_lower_def)
  note t = safe_prefix_sanitized [of ascii_ucd "py ''my-review 1!''"]
  have l: "length (safe_prefix ascii_ucd (py ''my-review 1!'')) = 12"
    using t by (simp add: p)
  have 2: "safe_prefix ascii_ucd (py ''my-review 1!'') ! 2 = 95"
    using t [THEN conjunct2, THEN conjunct2, rule_format, of 2] a by (simp add: p)
  have 3: "safe_prefix ascii_ucd (py ''my-review 1!'') ! 3 = 114"
    using t [THEN conjunct2, THEN conjunct2, rule_format, of 3] a by (simp add: p)
  have e: "safe_prefix ascii_ucd (py ''my-review 1!'') = py ''my_review_1_''"
    by (simp add: safe_prefix_map py_simps isalnum_def is_ascii_def ascii_digit_def
        ascii_upper_def ascii_lower_def ascii_ucd_simps)
  show ?thesis using t l 2 3 e by simp
qed

text \<open>
  C5. The rename of \<open>request\<close> to \<open>inputs\<close> happens only when \<open>inputs\<close> is absent
  (and \<open>request\<close> present), the rename of \<open>response\<close> to \<open>outputs\<close> only when
  \<open>outputs\<close> is absent; each is decided on the columns as fetched, independently of
  the other, and the two commute. The rows are untouched. Nothing changes when
  \<open>inputs\<close> and \<open>outputs\<close> are already there, and a second application changes
  nothing.
\<close>

theorem rename_trace_columns_conditional:
  "columns (rename_trace_columns df) =
     map (\<lambda>c. if c = py ''request'' \<and> py ''inputs'' \<notin> set (columns df) then py ''inputs''
              else if c = py ''response'' \<and> py ''outputs'' \<notin> set (columns df)
                   then py ''outputs''
              else c) (columns df) \<and>
   rows (rename_trace_columns df) = rows df \<and>
   (py ''inputs'' \<in> set (columns df) \<and> py ''outputs'' \<in> set (columns df) \<longrightarrow>
      rename_trace_columns df = df) \<and>
   (py ''request'' \<notin> set (columns df) \<and> py ''response'' \<notin> set (columns df) \<longrightarrow>
      rename_trace_columns df = df) \<and>
   rename_response (rename_request df) = rename_request (rename_response df) \<and>
   rename_trace_columns (rename_trace_columns df) = rename_trace_columns df"
  using columns_rename_trace_columns [of df] rows_rename_trace_columns [of df]
    rename_trace_columns_noop [of df] rename_trace_columns_absent [of df]
    rename_commute [of df] rename_trace_columns_idem [of df]
  by blast

theorem rename_trace_columns_conditional_witness:
  "columns (rename_trace_columns example_traces) =
     [py ''trace_id'', py ''inputs'', py ''outputs''] \<and>
   rows (rename_trace_columns example_traces) = rows example_traces \<and>
   rename_trace_columns (rename_trace_columns example_traces) =
     rename_trace_columns example_traces \<and>
   rename_trace_columns
     \<lparr>columns = [py ''inputs'', py ''outputs'', py ''request''], rows = []\<rparr> =
     \<lparr>columns = [py ''inputs'', py ''outputs'', py ''request''], rows = []\<rparr> \<and>
   columns (rename_trace_columns \<lparr>columns = [py ''inputs'', py ''response''], rows = []\<rparr>) =
     [py ''inputs'', py ''outputs'']"
proof -
  have a: "columns (rename_trace_columns example_traces) =
     [py ''trace_id'', py ''inputs'', py ''outputs'']"
    using rename_trace_columns_conditional [of example_traces]
    by (simp add: example_traces_def py_simps)
  have b: "rename_trace_columns
     \<lparr>columns = [py ''inputs'', py ''outputs'', py ''request''], rows = []\<rparr> =
     \<lparr>columns = [py ''inputs'', py ''outputs'', py ''request''], rows = []\<rparr>"
    using rename_trace_columns_conditional
      [of "\<lparr>columns = [py ''inputs'', py ''outputs'', py ''request''], rows = []\<rparr>"]
    by simp
  have c: "columns (rename_trace_columns \<lparr>columns = [py ''inputs'', py ''response''], rows = []\<rparr>) =
     [py ''inputs'', py ''outputs'']"
    using rename_trace_columns_conditional
      [of "\<lparr>columns = [py ''inputs'', py ''response''], rows = []\<rparr>"]
    by (simp add: py_simps)
  show ?thesis
    using a b c rename_trace_columns_conditional [of example_traces] by simp
qed

text \<open>
  C10. The reviewer list is made of the comma-separated pieces of the argument (the
  pieces joined by commas give the argument back, and no piece holds a comma), each
  with its surrounding whitespace stripped, the pieces that are empty or all
  whitespace dropped. No entry of the list is empty, and the empty argument gives the
  empty list. It is this list that every run passes to the creation of the session.
\<close>

theorem parse_reviewer_emails_tokens:
  "(run svc db args now w = (r, w', evs) \<longrightarrow>
      list_all (users_are (parse_reviewer_emails db (reviewer_emails args))) (map fst evs)) \<and>
   parse_reviewer_emails db s =
     map (strip db) (filter (\<lambda>t. \<not> list_all (isspace db) t) (split s 44)) \<and>
   join [44] (split s 44) = s \<and>
   list_all (\<lambda>t. 44 \<notin> set t) (split s 44) \<and>
   (\<forall>t. (\<exists>a b. t = a @ strip db t @ b \<and> list_all (isspace db) a \<and> list_all (isspace db) b) \<and>
        (strip db t \<noteq> [] \<longrightarrow>
           \<not> isspace db (hd (strip db t)) \<and> \<not> isspace db (last (strip db t)))) \<and>
   list_all (\<lambda>e. e \<noteq> []) (parse_reviewer_emails db s) \<and>
   parse_reviewer_emails db [] = []"
proof -
  have 1: "parse_reviewer_emails db s =
     map (strip db) (filter (\<lambda>t. \<not> list_all (isspace db) t) (split s 44))"
    by (simp add: parse_reviewer_emails_def strip_empty_iff)
  have 2: "join [44] (split s 44) = s"
    by (simp add: split_def join_split_acc)
  have 3: "list_all (\<lambda>t. 44 \<notin> set t) (split s 44)"
    by (simp add: split_def split_acc_no_sep)
  have 4: "\<exists>a b. t = a @ strip db t @ b \<and> list_all (isspace db) a \<and> list_all (isspace db) b" for t
  proof (intro exI conjI)
    show "t = takeWhile (isspace db) t @ strip db t @ rev (takeWhile (isspace db) (rev (lstrip db t)))"
      by (rule strip_decomp)
  qed (simp_all add: takeWhile_all)
  have 5: "list_all (\<lambda>e. e \<noteq> []) (parse_reviewer_emails db s)"
    by (simp add: parse_reviewer_emails_def list_all_iff)
  have 6: "parse_reviewer_emails db [] = []"
    by (simp add: parse_reviewer_emails_def split_def strip_def rstrip_def lstrip_def)
  have parsing: "parse_reviewer_emails db s =
     map (strip db) (filter (\<lambda>t. \<not> list_all (isspace db) t) (split s 44)) \<and>
   join [44] (split s 44) = s \<and>
   list_all (\<lambda>t. 44 \<notin> set t) (split s 44) \<and>
   (\<forall>t. (\<exists>a b. t = a @ strip db t @ b \<and> list_all (isspace db) a \<and> list_all (isspace db) b) \<and>
        (strip db t \<noteq> [] \<longrightarrow>
           \<not> isspace db (hd (strip db t)) \<and> \<not> isspace db (last (strip db t)))) \<and>
   list_all (\<lambda>e. e \<noteq> []) (parse_reviewer_emails db s) \<and>
   parse_reviewer_emails db [] = []"
    using 1 2 3 4 5 6 strip_ends by blast
  have e: "ensures (main svc db args now) []
          (\<lambda>r evs. list_all (users_are (parse_reviewer_emails db (reviewer_emails args)))
             (map fst evs))"
    apply (simp only: norm)
    apply (intro ensures_rules)
                        apply simp_all
    done
  have passed: "run svc db args now w = (r, w', evs) \<longrightarrow>
      list_all (users_are (parse_reviewer_emails db (reviewer_emails args))) (map fst evs)"
  proof
    assume "run svc db args now w = (r, w', evs)"
    from ensures_main [OF e this]
    show "list_all (users_are (parse_reviewer_emails db (reviewer_emails args))) (map fst evs)" .
  qed
  from passed parsing show ?thesis by (rule conjI)
qed

theorem parse_reviewer_emails_tokens_witness:
  "parse_reviewer_emails ascii_ucd (py '' a@x.com , ,b@x.com,,'') = [py ''a@x.com'', py ''b@x.com''] \<and>
   split (py '' a@x.com , ,b@x.com,,'') 44 =
     [py '' a@x.com '', py '' '', py ''b@x.com'', [], []] \<and>
   join [44] (split (py '' a@x.com , ,b@x.com,,'') 44) = py '' a@x.com , ,b@x.com,,'' \<and>
   strip ascii_ucd (py '' a@x.com '') = py ''a@x.com'' \<and>
   parse_reviewer_emails ascii_ucd [] = [] \<and>
   list_all (users_are [py ''a@x.com'', py ''b@x.com''])
     (map fst (calls_of (run fake_services ascii_ucd example_args example_now example_world)))"
proof -
  note t = parse_reviewer_emails_tokens [of fake_services ascii_ucd example_args example_now
      example_world "Inr ()"
      "fst (snd (run fake_services ascii_ucd example_args example_now example_world))"
      "calls_of (run fake_services ascii_ucd example_args example_now example_world)"
      "py '' a@x.com , ,b@x.com,,''"]
  have u: "list_all (users_are [py ''a@x.com'', py ''b@x.com''])
     (map fst (calls_of (run fake_services ascii_ucd example_args example_now example_world)))"
    using t by (simp add: example_run calls_of_def example_args_simps example_reviewers)
  have s: "split (py '' a@x.com , ,b@x.com,,'') 44 =
     [py '' a@x.com '', py '' '', py ''b@x.com'', [], []]"
    by (simp add: split_def py_simps)
  have sp: "isspace ascii_ucd 32" "\<not> isspace ascii_ucd 97" "\<not> isspace ascii_ucd 98"
    "\<not> isspace ascii_ucd 109"
    by (simp_all add: isspace_def is_ascii_def)
  have st: "strip ascii_ucd (py '' a@x.com '') = py ''a@x.com''"
    "strip ascii_ucd (py ''b@x.com'') = py ''b@x.com''"
    by (simp_all add: strip_def lstrip_def rstrip_def py_simps sp)
  have p: "parse_reviewer_emails ascii_ucd (py '' a@x.com , ,b@x.com,,'') =
      [py ''a@x.com'', py ''b@x.com'']"
    using t st by (simp add: s) (simp add: py_simps sp)
  show ?thesis using t p s st u by simp
qed

text \<open>
  C8. On every run that ends successfully the label schema is registered exactly
  once, and the one call returned: its name is \<open>conversation_quality\<close>, its input
  the numeric range 1 to 5, comments are enabled and the overwrite flag is set. The
  call is the same whatever the platform holds.
\<close>

theorem label_schema_registered_once:
  assumes "run svc db args now w = (Inr (), w', evs)"
  shows "\<exists>ls. filter (\<lambda>ev. registers_schema (fst ev)) evs =
              [(CreateLabelSchema ls, Returned VNone)] \<and>
            schema_name ls = py ''conversation_quality'' \<and>
            schema_input ls = InputNumeric 1 5 \<and>
            schema_enable_comment ls \<and> schema_overwrite ls"
proof -
  have "ensures (main svc db args now) []
          (\<lambda>r evs. r = Inr () \<longrightarrow>
             (\<exists>ls. filter (\<lambda>ev. registers_schema (fst ev)) evs =
                     [(CreateLabelSchema ls, Returned VNone)] \<and>
                   schema_name ls = py ''conversation_quality'' \<and>
                   schema_input ls = InputNumeric 1 5 \<and>
                   schema_enable_comment ls \<and> schema_overwrite ls))"
    apply (simp only: norm)
    apply (intro ensures_rules)
                        apply (simp_all add: conversation_quality_schema_def LABEL_SCHEMA_NAME_def)
    done
  from ensures_main [OF this assms] show ?thesis by simp
qed

theorem label_schema_registered_once_witness:
  "filter (\<lambda>ev. registers_schema (fst ev))
     (calls_of (run fake_services ascii_ucd example_args example_now example_world)) =
     [(CreateLabelSchema conversation_quality_schema, Returned VNone)] \<and>
   schema_name conversation_quality_schema = py ''conversation_quality'' \<and>
   schema_input conversation_quality_schema = InputNumeric 1 5 \<and>
   schema_enable_comment conversation_quality_schema \<and> schema_overwrite conversation_quality_schema"
  using label_schema_registered_once [OF example_run]
  by (simp add: example_run calls_of_def conversation_quality_schema_def LABEL_SCHEMA_NAME_def)

text \<open>
  C1, as amended. In every run in which the trace query returns zero rows the
  process exits with status 1 after exactly six calls: the two MLflow settings, the
  import of pyspark, the Spark session, the statement \<open>CREATE SCHEMA IF NOT EXISTS\<close>
  for the target schema, and the trace query. No dataset is fetched or created, no
  records are merged, no label schema is registered, no labeling session is created
  or extended, nothing is notified; the schema-creating statement is the only call
  that asks the platform to change anything.
\<close>

theorem zero_traces_exit:
  assumes "run svc db args now w = (r, w', evs)"
    and "(SearchTraces ids n ord rt, Returned (VFrame df)) \<in> set evs"
    and "rows df = []"
  shows "exit_of r = ExitStatus 1 \<and>
         map fst evs =
           [SetTrackingUri (py ''databricks''), SetExperiment (experiment_id args),
            Import ''pyspark.sql'', SparkGetOrCreate,
            SparkSql (create_schema_statement (uc_catalog args) (uc_schema args)),
            SearchTraces [experiment_id args] (num_traces args)
              [py ''attributes.timestamp_ms DESC''] (py ''pandas'')] \<and>
         list_all (\<lambda>c. \<not> dataset_call c \<and> \<not> registers_schema c \<and> \<not> creates_session c \<and>
                      \<not> attaches_dataset c \<and> \<not> notification_call c) (map fst evs) \<and>
         filter mutating (map fst evs) =
           [SparkSql (create_schema_statement (uc_catalog args) (uc_schema args))]"
proof -
  have "ensures (main svc db args now) []
          (\<lambda>r evs. \<forall>ids n ord rt df.
             (SearchTraces ids n ord rt, Returned (VFrame df)) \<in> set evs \<longrightarrow> rows df = [] \<longrightarrow>
             exit_of r = ExitStatus 1 \<and>
             map fst evs =
               [SetTrackingUri (py ''databricks''), SetExperiment (experiment_id args),
                Import ''pyspark.sql'', SparkGetOrCreate,
                SparkSql (create_schema_statement (uc_catalog args) (uc_schema args)),
                SearchTraces [experiment_id args] (num_traces args)
                  [py ''attributes.timestamp_ms DESC''] (py ''pandas'')] \<and>
             list_all (\<lambda>c. \<not> dataset_call c \<and> \<not> registers_schema c \<and> \<not> creates_session c \<and>
                          \<not> attaches_dataset c \<and> \<not> notification_call c) (map fst evs) \<and>
             filter mutating (map fst evs) =
               [SparkSql (create_schema_statement (uc_catalog args) (uc_schema args))])"
    apply (simp only: norm)
    apply (intro ensures_rules)
                        apply (auto simp: df_empty_def exit_of_def)
    done
  from ensures_main [OF this assms(1)] assms(2,3) show ?thesis by blast
qed

theorem zero_traces_exit_witness:
  "exit_of (fst (run fake_services ascii_ucd example_args example_now no_traces_world)) =
     ExitStatus 1 \<and>
   map fst (calls_of (run fake_services ascii_ucd example_args example_now no_traces_world)) =
     [SetTrackingUri (py ''databricks''), SetExperiment (py ''123''),
      Import ''pyspark.sql'', SparkGetOrCreate,
      SparkSql (create_schema_statement (py ''main'') (py ''agent_review'')),
      SearchTraces [py ''123''] 2 [py ''attributes.timestamp_ms DESC''] (py ''pandas'')] \<and>
   fw_datasets (fst (snd (run fake_services ascii_ucd example_args example_now no_traces_world))) = [] \<and>
   fw_label_schemas (fst (snd (run fake_services ascii_ucd example_args example_now no_traces_world))) = [] \<and>
   fw_sessions (fst (snd (run fake_services ascii_ucd example_args example_now no_traces_world))) = []"
  unfolding no_traces_run
  using zero_traces_exit [OF no_traces_run, of "[py ''123'']" 2
      "[py ''attributes.timestamp_ms DESC'']" "py ''pandas''" "example_traces\<lparr>rows := []\<rparr>"]
  by (simp add: calls_of_def example_args_simps no_traces_world_def example_world_def)

text \<open>
  C1 as stated fails: in the example run on a trace store without rows the query
  returns zero rows and the process exits with status 1, yet a mutating call was made
  before the exit. It is the \<open>CREATE SCHEMA IF NOT EXISTS\<close> statement of step 2,
  and the platform ran it.
\<close>

theorem zero_traces_schema_statement_counterexample:
  "(SearchTraces [py ''123''] 2 [py ''attributes.timestamp_ms DESC''] (py ''pandas''),
    Returned (VFrame (example_traces\<lparr>rows := []\<rparr>)))
     \<in> set (calls_of (run fake_services ascii_ucd example_args example_now no_traces_world)) \<and>
   rows (example_traces\<lparr>rows := []\<rparr>) = [] \<and>
   exit_of (fst (run fake_services ascii_ucd example_args example_now no_traces_world)) =
     ExitStatus 1 \<and>
   filter mutating
     (map fst (calls_of (run fake_services ascii_ucd example_args example_now no_traces_world))) =
     [SparkSql (create_schema_statement (py ''main'') (py ''agent_review''))] \<and>
   fw_statements no_traces_world = [] \<and>
   fw_statements (fst (snd (run fake_services ascii_ucd example_args example_now no_traces_world))) =
     [py ''CREATE SCHEMA IF NOT EXISTS '' @ [96] @ py ''main'' @ [96] @ py ''.'' @ [96] @
      py ''agent_review'' @ [96]]"
  unfolding no_traces_run
  by (simp add: calls_of_def exit_of_def no_traces_world_def example_world_def
      create_schema_statement_def)

text \<open>
  C4. Dataset resolution first fetches by name. When the fetch returns, its dataset is
  the result and nothing is created. When the fetch raises an \<open>Exception\<close>, of
  whatever kind, exactly one create call follows, with the same name, and its outcome
  is the result. (An exit request or interrupt, which \<open>except Exception\<close> does not
  catch, passes through.) So one create call is made if and only if the fetch raised
  an \<open>Exception\<close>, and otherwise none.
\<close>

theorem get_or_create_dataset_fallback:
  assumes "get_or_create_dataset svc nm (w, evs) = (r, w', evs')"
  shows "((\<exists>d. svc_get_dataset svc nm w = (Inr d, w') \<and> r = Inr d \<and>
              evs' = evs @ [(GetDataset nm, Returned (VDataset d))]) \<or>
          (\<exists>e. \<not> is_Exception e \<and> svc_get_dataset svc nm w = (Inl e, w') \<and> r = Inl e \<and>
              evs' = evs @ [(GetDataset nm, Raised e)]) \<or>
          (\<exists>e w1. is_Exception e \<and> svc_get_dataset svc nm w = (Inl e, w1) \<and>
              svc_create_dataset svc nm w1 = (r, w') \<and>
              evs' = evs @ [(GetDataset nm, Raised e),
                            (CreateDataset nm, outcome_of VDataset r)])) \<and>
         length (filter (\<lambda>ev. is_create_dataset (fst ev)) (drop (length evs) evs')) =
           (if \<exists>e. is_Exception e \<and> fst (svc_get_dataset svc nm w) = Inl e then 1 else 0)"
proof -
  obtain g w1 where g: "svc_get_dataset svc nm w = (g, w1)"
    by (cases "svc_get_dataset svc nm w") auto
  show ?thesis
  proof (cases g)
    case (Inr d)
    then show ?thesis using assms g
      by (auto simp: get_or_create_dataset_def get_dataset_def create_dataset_def
          try_except_Exception_def invoke_def outcome_of_def)
  next
    case (Inl e)
    show ?thesis
    proof (cases "is_Exception e")
      case False
      then show ?thesis using assms g Inl
        by (auto simp: get_or_create_dataset_def get_dataset_def create_dataset_def
            try_except_Exception_def invoke_def outcome_of_def)
    next
      case True
      obtain c w2 where c: "svc_create_dataset svc nm w1 = (c, w2)"
        by (cases "svc_create_dataset svc nm w1") auto
      have "get_or_create_dataset svc nm (w, evs) =
        (c, w2, evs @ [(GetDataset nm, Raised e), (CreateDataset nm, outcome_of VDataset c)])"
        using g Inl True c
        by (simp add: get_or_create_dataset_def get_dataset_def create_dataset_def
            try_except_Exception_def invoke_def outcome_of_simps)
      with assms have "(r, w', evs') =
        (c, w2, evs @ [(GetDataset nm, Raised e), (CreateDataset nm, outcome_of VDataset c)])"
        by (rule trans [OF sym])
      then have "r = c" "w' = w2"
        "evs' = evs @ [(GetDataset nm, Raised e), (CreateDataset nm, outcome_of VDataset c)]"
        by auto
      then show ?thesis using g Inl True c by auto
    qed
  qed
qed

theorem get_or_create_dataset_fallback_witness:
  "get_or_create_dataset fake_services (py ''main.s.t'') (example_world, []) =
     (Inr 0, example_world\<lparr>fw_datasets := [(py ''main.s.t'', [])]\<rparr>,
      [(GetDataset (py ''main.s.t''), Raised (Exception ''dataset not found'')),
       (CreateDataset (py ''main.s.t''), Returned (VDataset 0))]) \<and>
   is_Exception (Exception ''dataset not found'') \<and>
   length (filter (\<lambda>ev. is_create_dataset (fst ev))
     (snd (snd (get_or_create_dataset fake_services (py ''main.s.t'') (example_world, []))))) = 1 \<and>
   get_or_create_dataset fake_services (py ''main.s.t'')
     (example_world\<lparr>fw_datasets := [(py ''main.s.t'', [])]\<rparr>, []) =
     (Inr 0, example_world\<lparr>fw_datasets := [(py ''main.s.t'', [])]\<rparr>,
      [(GetDataset (py ''main.s.t''), Returned (VDataset 0))])"
proof -
  have a: "get_or_create_dataset fake_services (py ''main.s.t'') (example_world, []) =
     (Inr 0, example_world\<lparr>fw_datasets := [(py ''main.s.t'', [])]\<rparr>,
      [(GetDataset (py ''main.s.t''), Raised (Exception ''dataset not found'')),
       (CreateDataset (py ''main.s.t''), Returned (VDataset 0))])"
    by (simp add: get_or_create_dataset_def call_defs prog_defs fake_services_def
        example_world_def)
  have b: "get_or_create_dataset fake_services (py ''main.s.t'')
     (example_world\<lparr>fw_datasets := [(py ''main.s.t'', [])]\<rparr>, []) =
     (Inr 0, example_world\<lparr>fw_datasets := [(py ''main.s.t'', [])]\<rparr>,
      [(GetDataset (py ''main.s.t''), Returned (VDataset 0))])"
    by (simp add: get_or_create_dataset_def call_defs prog_defs fake_services_def
        example_world_def)
  show ?thesis
    using get_or_create_dataset_fallback [OF a] get_or_create_dataset_fallback [OF b]
    by (simp add: a b)
qed

text \<open>
  C6, as amended. In every run in which the trace query returns a table that is not
  empty and dataset resolution returns a dataset, the merge is called exactly once,
  on that dataset, with the fetched table after the conditional renames: the same
  rows in the same order, so the same number of rows.
\<close>

theorem merge_receives_fetched_rows:
  assumes "run svc db args now w = (r, w', evs)"
    and "(SearchTraces ids n ord rt, Returned (VFrame df)) \<in> set evs"
    and "\<not> df_empty df"
    and "(GetDataset nm, Returned (VDataset d)) \<in> set evs \<or>
         (CreateDataset nm, Returned (VDataset d)) \<in> set evs"
  shows "(\<exists>res. filter (\<lambda>ev. is_merge (fst ev)) evs =
                  [(MergeRecords d (rename_trace_columns df), res)]) \<and>
         rows (rename_trace_columns df) = rows df \<and>
         len (rename_trace_columns df) = len df"
proof -
  have "ensures (main svc db args now) []
          (\<lambda>r evs. \<forall>ids n ord rt df nm d.
             (SearchTraces ids n ord rt, Returned (VFrame df)) \<in> set evs \<longrightarrow>
             ((GetDataset nm, Returned (VDataset d)) \<in> set evs \<or>
              (CreateDataset nm, Returned (VDataset d)) \<in> set evs) \<longrightarrow>
             (\<exists>res. filter (\<lambda>ev. is_merge (fst ev)) evs =
                      [(MergeRecords d (rename_trace_columns df), res)]))"
    apply (simp only: norm)
    apply (intro ensures_rules)
                        apply auto
    done
  from ensures_main [OF this assms(1)] assms(2,4)
  have "\<exists>res. filter (\<lambda>ev. is_merge (fst ev)) evs =
                  [(MergeRecords d (rename_trace_columns df), res)]"
    by blast
  then show ?thesis by (simp add: rows_rename_trace_columns len_def)
qed

theorem merge_receives_fetched_rows_witness:
  "filter (\<lambda>ev. is_merge (fst ev))
     (calls_of (run fake_services ascii_ucd example_args example_now example_world)) =
     [(MergeRecords 0 (rename_trace_columns example_traces), Returned VNone)] \<and>
   rows (rename_trace_columns example_traces) =
     [[py ''t1'', py ''q1'', py ''a1''], [py ''t2'', py ''q2'', py ''a2'']] \<and>
   len (rename_trace_columns example_traces) = 2 \<and>
   fw_datasets (fst (snd (run fake_services ascii_ucd example_args example_now example_world))) =
     [(uc_table_name ascii_ucd example_args example_now,
       [[py ''t1'', py ''q1'', py ''a1''], [py ''t2'', py ''q2'', py ''a2'']])]"
  unfolding example_run
  using merge_receives_fetched_rows [OF example_run, of "[py ''123'']" 2
      "[py ''attributes.timestamp_ms DESC'']" "py ''pandas''" example_traces
      "uc_table_name ascii_ucd example_args example_now" 0]
  by (simp add: calls_of_def example_traces_simps) (simp add: example_traces_def len_def)

text \<open>
  C6 as stated fails: in this run the trace query returns two rows, the dataset does
  not exist and its creation is refused, so the run ends with that exception and the
  merge is never called.
\<close>

theorem merge_not_called_counterexample:
  "(SearchTraces [py ''123''] 2 [py ''attributes.timestamp_ms DESC''] (py ''pandas''),
    Returned (VFrame example_traces))
     \<in> set (calls_of (run fake_services ascii_ucd example_args example_now locked_world)) \<and>
   length (rows example_traces) = 2 \<and>
   filter is_merge
     (map fst (calls_of (run fake_services ascii_ucd example_args example_now locked_world))) = [] \<and>
   fst (run fake_services ascii_ucd example_args example_now locked_world) =
     Inl (Exception ''permission denied'')"
  unfolding locked_run
  by (simp add: calls_of_def example_traces_def)

text \<open>
  C7. The session name is the sanitized prefix, an underscore, and the clock reading
  written as eight digits, an underscore and six digits: year, month, day, hour,
  minute and second, each read back from its place. This is so for every clock
  reading from the year 1000 on, hence for every reading a running clock gives. The
  dataset name is the catalog, a dot, the schema, a dot and the session name. In
  every run every call that names the session or the dataset uses exactly these
  names, and a run that succeeds makes such calls.
\<close>

theorem derived_names:
  assumes "run svc db args now w = (r, w', evs)" and "valid_datetime now"
    and "1000 \<le> year now"
  shows "session_name db args now =
           safe_prefix db (session_name_prefix args) @ [95] @ strftime now \<and>
         uc_table_name db args now =
           uc_catalog args @ [46] @ uc_schema args @ [46] @ session_name db args now \<and>
         list_all (names_are (session_name db args now) (uc_table_name db args now))
           (map fst evs) \<and>
         (r = Inr () \<longrightarrow>
            list_ex creates_session (map fst evs) \<and> list_ex dataset_call (map fst evs)) \<and>
         length (strftime now) = 15 \<and>
         list_all ascii_digit (take 8 (strftime now)) \<and>
         strftime now ! 8 = 95 \<and>
         list_all ascii_digit (drop 9 (strftime now)) \<and>
         nat_of_digits (take 4 (strftime now)) = year now \<and>
         nat_of_digits (take 2 (drop 4 (strftime now))) = month now \<and>
         nat_of_digits (take 2 (drop 6 (strftime now))) = day now \<and>
         nat_of_digits (take 2 (drop 9 (strftime now))) = hour now \<and>
         nat_of_digits (take 2 (drop 11 (strftime now))) = minute now \<and>
         nat_of_digits (take 2 (drop 13 (strftime now))) = second now"
proof -
  have "ensures (main svc db args now) []
          (\<lambda>r evs.
             list_all (names_are (session_name db args now) (uc_table_name db args now))
               (map fst evs) \<and>
             (r = Inr () \<longrightarrow>
                list_ex creates_session (map fst evs) \<and> list_ex dataset_call (map fst evs)))"
    apply (simp only: norm)
    apply (intro ensures_rules)
                        apply simp_all
    done
  from ensures_main [OF this assms(1)]
  have calls: "list_all (names_are (session_name db args now) (uc_table_name db args now))
           (map fst evs) \<and>
         (r = Inr () \<longrightarrow>
            list_ex creates_session (map fst evs) \<and> list_ex dataset_call (map fst evs))" .
  have names: "session_name db args now =
           safe_prefix db (session_name_prefix args) @ [95] @ strftime now"
    "uc_table_name db args now =
           uc_catalog args @ [46] @ uc_schema args @ [46] @ session_name db args now"
    by (simp_all add: session_name_def uc_table_name_def py_simps)
  show ?thesis
    using calls names strftime_format [OF assms(2,3)] by simp
qed

theorem derived_names_witness:
  "valid_datetime example_now \<and>
   1000 \<le> year example_now \<and>
   strftime example_now = py ''20261104_090500'' \<and>
   session_name ascii_ucd example_args example_now = py ''agent_review_20261104_090500'' \<and>
   uc_table_name ascii_ucd example_args example_now =
     py ''main.agent_review.agent_review_20261104_090500'' \<and>
   list_all (names_are (py ''agent_review_20261104_090500'')
               (py ''main.agent_review.agent_review_20261104_090500''))
     (map fst (calls_of (run fake_services ascii_ucd example_args example_now example_world))) \<and>
   list_ex creates_session
     (map fst (calls_of (run fake_services ascii_ucd example_args example_now example_world))) \<and>
   nat_of_digits (take 4 (strftime example_now)) = 2026 \<and>
   nat_of_digits (take 2 (drop 11 (strftime example_now))) = 5"
proof -
  have v: "valid_datetime example_now"
    by (simp add: valid_datetime_def example_now_def)
  have d: "str_of_nat 2026 = py ''2026''" "str_of_nat 11 = py ''11''" "str_of_nat 4 = py ''4''"
    "str_of_nat 9 = py ''9''" "str_of_nat 5 = py ''5''" "str_of_nat 0 = py ''0''"
    by (simp_all add: str_of_nat.simps py_simps)
  have s: "strftime example_now = py ''20261104_090500''"
    by (simp add: strftime_def example_now_def d zfill_def) (simp add: py_simps)
  have y1: "1000 \<le> year example_now"
    by (simp add: example_now_def)
  note t = derived_names [OF example_run v y1]
  have sn: "session_name ascii_ucd example_args example_now = py ''agent_review_20261104_090500''"
    by (simp add: session_name_def example_args_def s safe_prefix_map py_simps isalnum_def
        is_ascii_def ascii_digit_def ascii_upper_def ascii_lower_def)
  have tn: "uc_table_name ascii_ucd example_args example_now =
     py ''main.agent_review.agent_review_20261104_090500''"
    by (simp add: uc_table_name_def sn) (simp add: example_args_def py_simps)
  have y: "year example_now = 2026" "minute example_now = 5"
    by (simp_all add: example_now_def)
  show ?thesis
    unfolding example_run calls_of_def using t v y1 s sn tn y by simp
qed

text \<open>
  C3. Calls of the notification step (its imports, the secret fetch, the user lookup,
  the message post) are made only when \<open>--notify-users\<close>, lowercased, is \<open>true\<close>
  and \<open>--slack-secret-scope\<close> is not empty: for every other pair of arguments no
  run makes any of them. A run makes such calls if and only if the condition holds and
  the run has come as far as the step (the dataset was attached to the session); so
  in every run that reaches the step, the step runs if and only if the condition
  holds. When it runs and the run succeeds, it makes its five calls once each, ending
  with the message post.
\<close>

theorem notification_guard:
  assumes "run svc db args now w = (r, w', evs)"
  shows "(\<not> (lower db (notify_users args) = py ''true'' \<and> slack_secret_scope args \<noteq> []) \<longrightarrow>
            list_all (\<lambda>c. \<not> notification_call c) (map fst evs)) \<and>
         (list_ex notification_call (map fst evs) \<longleftrightarrow>
            lower db (notify_users args) = py ''true'' \<and> slack_secret_scope args \<noteq> [] \<and>
            list_ex (\<lambda>ev. attaches_dataset (fst ev) \<and> returned ev) evs) \<and>
         (list_ex (\<lambda>ev. attaches_dataset (fst ev) \<and> returned ev) evs \<longrightarrow>
            (list_ex notification_call (map fst evs) \<longleftrightarrow>
             lower db (notify_users args) = py ''true'' \<and> slack_secret_scope args \<noteq> [])) \<and>
         (lower db (notify_users args) = py ''true'' \<and> slack_secret_scope args \<noteq> [] \<and>
          r = Inr () \<longrightarrow>
            (\<exists>token channel txt.
               map fst (dropWhile (\<lambda>ev. \<not> notification_call (fst ev)) evs) =
                 [Import ''slack_sdk'', Import ''databricks.sdk.runtime'',
                  SecretsGet (slack_secret_scope args) (py ''slack-bot-token''),
                  UsersLookupByEmail token (py ''brennan.beal@databricks.com''),
                  ChatPostMessage token channel txt]))"
proof -
  have "ensures (main svc db args now) []
          (\<lambda>r evs.
         (\<not> (lower db (notify_users args) = py ''true'' \<and> slack_secret_scope args \<noteq> []) \<longrightarrow>
            list_all (\<lambda>c. \<not> notification_call c) (map fst evs)) \<and>
         (list_ex notification_call (map fst evs) \<longleftrightarrow>
            lower db (notify_users args) = py ''true'' \<and> slack_secret_scope args \<noteq> [] \<and>
            list_ex (\<lambda>ev. attaches_dataset (fst ev) \<and> returned ev) evs) \<and>
         (list_ex (\<lambda>ev. attaches_dataset (fst ev) \<and> returned ev) evs \<longrightarrow>
            (list_ex notification_call (map fst evs) \<longleftrightarrow>
             lower db (notify_users args) = py ''true'' \<and> slack_secret_scope args \<noteq> [])) \<and>
         (lower db (notify_users args) = py ''true'' \<and> slack_secret_scope args \<noteq> [] \<and>
          r = Inr () \<longrightarrow>
            (\<exists>token channel txt.
               map fst (dropWhile (\<lambda>ev. \<not> notification_call (fst ev)) evs) =
                 [Import ''slack_sdk'', Import ''databricks.sdk.runtime'',
                  SecretsGet (slack_secret_scope args) (py ''slack-bot-token''),
                  UsersLookupByEmail token (py ''brennan.beal@databricks.com''),
                  ChatPostMessage token channel txt])))"
    apply (simp only: norm)
    apply (intro ensures_rules)
                        apply simp_all
    done
  from ensures_main [OF this assms] show ?thesis .
qed

theorem notification_guard_witness:
  "lower ascii_ucd (notify_users notify_args) = py ''true'' \<and>
   slack_secret_scope notify_args \<noteq> [] \<and>
   map fst (dropWhile (\<lambda>ev. \<not> notification_call (fst ev))
     (calls_of (run fake_services ascii_ucd notify_args example_now example_world))) =
     [Import ''slack_sdk'', Import ''databricks.sdk.runtime'',
      SecretsGet (py ''scope'') (py ''slack-bot-token''),
      UsersLookupByEmail (py ''xoxb'') (py ''brennan.beal@databricks.com''),
      ChatPostMessage (py ''xoxb'') (py ''U1'')
        (slack_text (session_name ascii_ucd example_args example_now) (len example_traces)
           (join (py '', '') (parse_reviewer_emails ascii_ucd (py ''a@x.com,b@x.com'')))
           (url example_session))] \<and>
   lower ascii_ucd (notify_users example_args) \<noteq> py ''true'' \<and>
   list_all (\<lambda>c. \<not> notification_call c)
     (map fst (calls_of (run fake_services ascii_ucd example_args example_now example_world))) \<and>
   list_ex (\<lambda>ev. attaches_dataset (fst ev) \<and> returned ev)
     (calls_of (run fake_services ascii_ucd example_args example_now example_world))"
  unfolding example_run notify_run calls_of_def
  using notification_guard [OF notify_run] notification_guard [OF example_run]
  by (simp add: example_args_simps notify_args_simps example_guard)

text \<open>
  C9. In every run, from the first call of the notification step on, every call is
  one of that step; and before it the merge, the registration of the label schema,
  the creation of the labeling session and the attachment of the dataset have each
  been called and have returned. When a call of the step raises, the run ends with
  that very exception and the raising call is the last call made: nothing is caught,
  and nothing is undone. A run that entered the step and failed ended with an
  exception raised by one of its calls, or by a missing key of the lookup's answer.
\<close>

theorem notification_after_all_steps:
  assumes "run svc db args now w = (r, w', evs)"
  shows "list_all (\<lambda>ev. notification_call (fst ev))
           (dropWhile (\<lambda>ev. \<not> notification_call (fst ev)) evs) \<and>
         (list_ex (\<lambda>ev. notification_call (fst ev)) evs \<longrightarrow>
            list_ex (\<lambda>ev. is_merge (fst ev) \<and> returned ev)
              (takeWhile (\<lambda>ev. \<not> notification_call (fst ev)) evs) \<and>
            list_ex (\<lambda>ev. registers_schema (fst ev) \<and> returned ev)
              (takeWhile (\<lambda>ev. \<not> notification_call (fst ev)) evs) \<and>
            list_ex (\<lambda>ev. creates_session (fst ev) \<and> returned ev)
              (takeWhile (\<lambda>ev. \<not> notification_call (fst ev)) evs) \<and>
            list_ex (\<lambda>ev. attaches_dataset (fst ev) \<and> returned ev)
              (takeWhile (\<lambda>ev. \<not> notification_call (fst ev)) evs)) \<and>
         (\<forall>c e. notification_call c \<and> (c, Raised e) \<in> set evs \<longrightarrow>
            r = Inl e \<and> last evs = (c, Raised e)) \<and>
         (list_ex (\<lambda>ev. notification_call (fst ev)) evs \<and> r \<noteq> Inr () \<longrightarrow>
            r = Inl (Exception ''KeyError'') \<or>
            (\<exists>c e. notification_call c \<and> last evs = (c, Raised e) \<and> r = Inl e))"
proof -
  have "ensures (main svc db args now) []
          (\<lambda>r evs.
         list_all (\<lambda>ev. notification_call (fst ev))
           (dropWhile (\<lambda>ev. \<not> notification_call (fst ev)) evs) \<and>
         (list_ex (\<lambda>ev. notification_call (fst ev)) evs \<longrightarrow>
            list_ex (\<lambda>ev. is_merge (fst ev) \<and> returned ev)
              (takeWhile (\<lambda>ev. \<not> notification_call (fst ev)) evs) \<and>
            list_ex (\<lambda>ev. registers_schema (fst ev) \<and> returned ev)
              (takeWhile (\<lambda>ev. \<not> notification_call (fst ev)) evs) \<and>
            list_ex (\<lambda>ev. creates_session (fst ev) \<and> returned ev)
              (takeWhile (\<lambda>ev. \<not> notification_call (fst ev)) evs) \<and>
            list_ex (\<lambda>ev. attaches_dataset (fst ev) \<and> returned ev)
              (takeWhile (\<lambda>ev. \<not> notification_call (fst ev)) evs)) \<and>
         (\<forall>c e. notification_call c \<and> (c, Raised e) \<in> set evs \<longrightarrow>
            r = Inl e \<and> last evs = (c, Raised e)) \<and>
         (list_ex (\<lambda>ev. notification_call (fst ev)) evs \<and> r \<noteq> Inr () \<longrightarrow>
            r = Inl (Exception ''KeyError'') \<or>
            (\<exists>c e. notification_call c \<and> last evs = (c, Raised e) \<and> r = Inl e)))"
    apply (simp only: norm)
    apply (intro ensures_rules)
                        apply (auto simp: )
    done
  from ensures_main [OF this assms] show ?thesis .
qed

theorem notification_after_all_steps_witness:
  "fst (run fake_services ascii_ucd notify_args example_now slack_down_world) =
     Inl (Exception ''SlackApiError'') \<and>
   last (calls_of (run fake_services ascii_ucd notify_args example_now slack_down_world)) =
     (UsersLookupByEmail (py ''xoxb'') (py ''brennan.beal@databricks.com''),
      Raised (Exception ''SlackApiError'')) \<and>
   map fst (takeWhile (\<lambda>ev. \<not> notification_call (fst ev))
     (calls_of (run fake_services ascii_ucd notify_args example_now slack_down_world))) =
     map fst (calls_of (run fake_services ascii_ucd example_args example_now example_world)) \<and>
   list_ex (\<lambda>ev. is_merge (fst ev) \<and> returned ev)
     (takeWhile (\<lambda>ev. \<not> notification_call (fst ev))
        (calls_of (run fake_services ascii_ucd notify_args example_now slack_down_world))) \<and>
   fw_datasets (fst (snd (run fake_services ascii_ucd notify_args example_now slack_down_world))) =
     [(uc_table_name ascii_ucd example_args example_now, rows example_traces)] \<and>
   fw_label_schemas (fst (snd (run fake_services ascii_ucd notify_args example_now slack_down_world))) =
     [conversation_quality_schema] \<and>
   fw_sessions (fst (snd (run fake_services ascii_ucd notify_args example_now slack_down_world))) =
     [session_name ascii_ucd example_args example_now]"
  unfolding example_run slack_down_run calls_of_def
  using notification_after_all_steps [OF slack_down_run]
  by simp

end
